theory Spec2Isabelle
  imports Complex_Main
begin

section \<open>Numeric values\<close>

text \<open>
  The risk calculator computes with numpy/pandas double-precision floats. The embedding
  idealises a finite float as a real number (rounding, overflow and the sign of zero are
  not modelled) and keeps the three special values a computation can produce instead of
  raising: the two infinities and NaN. numpy raises no exception on a division by zero
  or on the square root of a negative number; with the warnings silenced, as
  \<^verbatim>\<open>risk_calculator.py\<close> does at import time, it returns one of the special values.
\<close>

datatype npfloat = Fin real | PInf | NInf | NaN

fun np_neg :: "npfloat \<Rightarrow> npfloat" where
  "np_neg (Fin a) = Fin (- a)"
| "np_neg PInf = NInf"
| "np_neg NInf = PInf"
| "np_neg NaN = NaN"

fun np_add :: "npfloat \<Rightarrow> npfloat \<Rightarrow> npfloat" where
  "np_add (Fin a) (Fin b) = Fin (a + b)"
| "np_add NaN _ = NaN"
| "np_add _ NaN = NaN"
| "np_add PInf NInf = NaN"
| "np_add NInf PInf = NaN"
| "np_add PInf _ = PInf"
| "np_add _ PInf = PInf"
| "np_add NInf _ = NInf"
| "np_add _ NInf = NInf"

definition np_sub :: "npfloat \<Rightarrow> npfloat \<Rightarrow> npfloat" where
  "np_sub a b = np_add a (np_neg b)"

fun np_mul :: "npfloat \<Rightarrow> npfloat \<Rightarrow> npfloat" where
  "np_mul (Fin a) (Fin b) = Fin (a * b)"
| "np_mul NaN _ = NaN"
| "np_mul _ NaN = NaN"
| "np_mul (Fin a) PInf = (if 0 < a then PInf else if a < 0 then NInf else NaN)"
| "np_mul (Fin a) NInf = (if 0 < a then NInf else if a < 0 then PInf else NaN)"
| "np_mul PInf (Fin b) = (if 0 < b then PInf else if b < 0 then NInf else NaN)"
| "np_mul NInf (Fin b) = (if 0 < b then NInf else if b < 0 then PInf else NaN)"
| "np_mul PInf PInf = PInf"
| "np_mul PInf NInf = NInf"
| "np_mul NInf PInf = NInf"
| "np_mul NInf NInf = PInf"

text \<open>Division of numpy floats: a zero divisor gives an infinity or NaN, never an exception.\<close>

fun np_div :: "npfloat \<Rightarrow> npfloat \<Rightarrow> npfloat" where
  "np_div (Fin a) (Fin b) =
     (if b \<noteq> 0 then Fin (a / b) else if 0 < a then PInf else if a < 0 then NInf else NaN)"
| "np_div NaN _ = NaN"
| "np_div _ NaN = NaN"
| "np_div (Fin a) PInf = Fin 0"
| "np_div (Fin a) NInf = Fin 0"
| "np_div PInf (Fin b) = (if 0 \<le> b then PInf else NInf)"
| "np_div NInf (Fin b) = (if 0 \<le> b then NInf else PInf)"
| "np_div PInf PInf = NaN"
| "np_div PInf NInf = NaN"
| "np_div NInf PInf = NaN"
| "np_div NInf NInf = NaN"

fun np_sqrt :: "npfloat \<Rightarrow> npfloat" where
  "np_sqrt (Fin a) = (if a < 0 then NaN else Fin (sqrt a))"
| "np_sqrt PInf = PInf"
| "np_sqrt NInf = NaN"
| "np_sqrt NaN = NaN"

fun np_abs :: "npfloat \<Rightarrow> npfloat" where
  "np_abs (Fin a) = Fin \<bar>a\<bar>"
| "np_abs PInf = PInf"
| "np_abs NInf = PInf"
| "np_abs NaN = NaN"

text \<open>The comparison \<^verbatim>\<open><=\<close> of floats: every comparison with NaN is false.\<close>

fun np_le :: "npfloat \<Rightarrow> npfloat \<Rightarrow> bool" where
  "np_le (Fin a) (Fin b) = (a \<le> b)"
| "np_le NaN _ = False"
| "np_le _ NaN = False"
| "np_le NInf _ = True"
| "np_le _ PInf = True"
| "np_le _ NInf = False"
| "np_le PInf _ = False"

definition np_sum :: "npfloat list \<Rightarrow> npfloat" where
  "np_sum xs = foldr np_add xs (Fin 0)"

text \<open>\<^verbatim>\<open>np.dot\<close> of two vectors of the same length.\<close>

definition np_dot :: "npfloat list \<Rightarrow> npfloat list \<Rightarrow> npfloat" where
  "np_dot xs ys = np_sum (map2 np_mul xs ys)"

section \<open>pandas series and tables\<close>

text \<open>
  A \<^verbatim>\<open>pd.Series\<close> of returns is a list of reals in time order. A \<^verbatim>\<open>pd.DataFrame\<close> of
  returns has one column name per asset and one row per observed period; the portfolio
  manager builds it with \<^verbatim>\<open>dropna()\<close>, so no cell is missing.
\<close>

record data_frame =
  columns :: "string list"
  rows :: "real list list"

text \<open>\<^verbatim>\<open>Series.mean()\<close>: NaN on an empty series.\<close>

definition series_mean :: "real list \<Rightarrow> npfloat" where
  "series_mean xs = (if xs = [] then NaN else Fin (sum_list xs / real (length xs)))"

text \<open>The arithmetic mean as a real, where the series is known to be non-empty.\<close>

definition mean :: "real list \<Rightarrow> real" where
  "mean xs = sum_list xs / real (length xs)"

text \<open>\<^verbatim>\<open>Series.std()\<close>: the sample standard deviation (ddof = 1), NaN below two observations.\<close>

definition series_std :: "real list \<Rightarrow> npfloat" where
  "series_std xs =
     (if length xs < 2 then NaN
      else Fin (sqrt ((\<Sum>x\<leftarrow>xs. (x - mean xs) ^ 2) / real (length xs - 1))))"

text \<open>
  \<^verbatim>\<open>Series.min()\<close> skips NaN (skipna); on an empty or all-NaN series it is NaN.
\<close>

definition np_min2 :: "npfloat \<Rightarrow> npfloat \<Rightarrow> npfloat" where
  "np_min2 a b = (if np_le a b then a else b)"

definition series_min :: "npfloat list \<Rightarrow> npfloat" where
  "series_min xs =
     (case filter (\<lambda>x. x \<noteq> NaN) xs of
        [] \<Rightarrow> NaN
      | y # ys \<Rightarrow> foldl np_min2 y ys)"

text \<open>\<^verbatim>\<open>Series.cumprod()\<close>: the running product.\<close>

fun cumprod_from :: "real \<Rightarrow> real list \<Rightarrow> real list" where
  "cumprod_from acc [] = []"
| "cumprod_from acc (x # xs) = (acc * x) # cumprod_from (acc * x) xs"

definition cumprod :: "real list \<Rightarrow> real list" where
  "cumprod xs = cumprod_from 1 xs"

text \<open>\<^verbatim>\<open>Series.expanding().max()\<close>: at each position the maximum of the values so far.\<close>

fun expanding_max_from :: "real \<Rightarrow> real list \<Rightarrow> real list" where
  "expanding_max_from m [] = []"
| "expanding_max_from m (x # xs) = max m x # expanding_max_from (max m x) xs"

fun expanding_max :: "real list \<Rightarrow> real list" where
  "expanding_max [] = []"
| "expanding_max (x # xs) = x # expanding_max_from x xs"

text \<open>Column \<open>i\<close> of a table, as a series.\<close>

definition column :: "data_frame \<Rightarrow> nat \<Rightarrow> real list" where
  "column df i = map (\<lambda>r. r ! i) (rows df)"

text \<open>
  \<^verbatim>\<open>DataFrame.cov()\<close>: the sample covariance (ddof = 1) of every pair of columns; with
  fewer than two rows every entry is NaN.
\<close>

definition cov_entry :: "data_frame \<Rightarrow> nat \<Rightarrow> nat \<Rightarrow> real" where
  "cov_entry df i j =
     (\<Sum>r\<leftarrow>rows df. (r ! i - mean (column df i)) * (r ! j - mean (column df j)))
       / real (length (rows df) - 1)"

definition cov :: "data_frame \<Rightarrow> npfloat list list" where
  "cov df =
     (let n = length (columns df) in
      map (\<lambda>i. map (\<lambda>j. if length (rows df) < 2 then NaN else Fin (cov_entry df i j)) [0..<n])
        [0..<n])"

section \<open>Risk metrics\<close>

text \<open>
  \<^verbatim>\<open>_calculate_max_drawdown\<close>:
  \<^verbatim>\<open>cumulative_returns = (1 + returns).cumprod()\<close>,
  \<^verbatim>\<open>rolling_max = cumulative_returns.expanding().max()\<close>,
  \<^verbatim>\<open>drawdown = (cumulative_returns - rolling_max) / rolling_max\<close>,
  \<^verbatim>\<open>return abs(drawdown.min())\<close>.
\<close>

definition calculate_max_drawdown :: "real list \<Rightarrow> npfloat" where
  "calculate_max_drawdown returns =
     (let cumulative_returns = cumprod (map (\<lambda>r. 1 + r) returns);
          rolling_max = expanding_max cumulative_returns;
          drawdown = map2 (\<lambda>c m. np_div (Fin (c - m)) (Fin m)) cumulative_returns rolling_max
      in np_abs (series_min drawdown))"

text \<open>
  The wealth curve and its running maximum in closed form, as the specification words
  them: the wealth after period \<open>k\<close> is the product of \<open>1 + return\<close> over the periods up
  to \<open>k\<close>, and the running maximum at \<open>k\<close> is the largest wealth reached up to \<open>k\<close>.
\<close>

definition wealth :: "real list \<Rightarrow> nat \<Rightarrow> real" where
  "wealth returns k = prod_list (map (\<lambda>r. 1 + r) (take (Suc k) returns))"

definition running_max :: "real list \<Rightarrow> nat \<Rightarrow> real" where
  "running_max returns k = Max (wealth returns ` {..k})"

definition drawdown_at :: "real list \<Rightarrow> nat \<Rightarrow> npfloat" where
  "drawdown_at returns k =
     np_div (Fin (wealth returns k - running_max returns k)) (Fin (running_max returns k))"

section \<open>Errors\<close>

text \<open>
  \<open>ValueError\<close> is the exception numpy and scipy raise on an argument out of range
  (\<^verbatim>\<open>np.percentile\<close> with a percentile outside [0, 100], \<^verbatim>\<open>rvs\<close> with a negative size),
  and \<open>IndexError\<close> the one \<^verbatim>\<open>np.percentile\<close> raises on an empty sample. The other three
  are the error classes of the specification's taxonomy.
\<close>

datatype error =
  ValueError | IndexError | InsufficientDataError | InvalidConfigurationError | DegenerateInputError

section \<open>numpy and scipy functions\<close>

text \<open>Sorting floats without NaN: the infinities are the least and the greatest value.\<close>

fun np_insort :: "npfloat \<Rightarrow> npfloat list \<Rightarrow> npfloat list" where
  "np_insort x [] = [x]"
| "np_insort x (y # ys) = (if np_le x y then x # y # ys else y # np_insort x ys)"

definition np_sort :: "npfloat list \<Rightarrow> npfloat list" where
  "np_sort xs = foldr np_insort xs []"

text \<open>
  \<^verbatim>\<open>_lerp(a, b, t)\<close> of numpy's quantile code: \<open>a + (b - a) * t\<close>, computed from the other
  end where \<open>t \<ge> 0.5\<close>.
\<close>

definition np_lerp :: "npfloat \<Rightarrow> npfloat \<Rightarrow> real \<Rightarrow> npfloat" where
  "np_lerp a b t =
     (if 1 / 2 \<le> t then np_sub b (np_mul (np_sub b a) (Fin (1 - t)))
      else np_add a (np_mul (np_sub b a) (Fin t)))"

text \<open>
  \<^verbatim>\<open>np.percentile(a, q)\<close>, default (linear) method: \<open>q\<close> outside [0, 100] raises
  \<open>ValueError\<close>, checked first; an empty sample raises \<open>IndexError\<close>; a sample with a NaN
  gives NaN; otherwise the sorted sample is read at the virtual index
  \<open>q / 100 * (n - 1)\<close>, interpolating linearly between the two neighbouring order
  statistics.
\<close>

definition np_percentile :: "npfloat list \<Rightarrow> real \<Rightarrow> error + npfloat" where
  "np_percentile a q =
     (if q < 0 \<or> 100 < q then Inl ValueError
      else if a = [] then Inl IndexError
      else if NaN \<in> set a then Inr NaN
      else
        (let s = np_sort a;
             n = length s;
             virtual_index = q / 100 * real (n - 1);
             previous_index = nat \<lfloor>virtual_index\<rfloor>;
             next_index = min (previous_index + 1) (n - 1);
             gamma = virtual_index - real previous_index
         in Inr (np_lerp (s ! previous_index) (s ! next_index) gamma)))"

text \<open>
  \<^verbatim>\<open>np.random.choice(a, size=len(a), replace=True)\<close>: \<open>len(a)\<close> entries of \<open>a\<close>, each at a
  random index below \<open>len(a)\<close>. The random source is a parameter: \<open>draw j\<close> is the raw
  random number behind the \<open>j\<close>-th entry, reduced to an index.
\<close>

definition random_choice :: "(nat \<Rightarrow> nat) \<Rightarrow> 'a list \<Rightarrow> 'a list" where
  "random_choice draw a = map (\<lambda>j. a ! (draw j mod length a)) [0..<length a]"

text \<open>
  \<^verbatim>\<open>stats.norm.ppf(p)\<close>: the quantile function of the standard normal distribution.
  On the open interval (0, 1) it is the parameter \<open>quantile\<close>; at 0 and 1 it is the
  infinities, and outside [0, 1] it is NaN.
\<close>

definition norm_ppf :: "(real \<Rightarrow> real) \<Rightarrow> real \<Rightarrow> npfloat" where
  "norm_ppf quantile p =
     (if p < 0 \<or> 1 < p then NaN
      else if p = 0 then NInf
      else if p = 1 then PInf
      else Fin (quantile p))"

text \<open>
  \<^verbatim>\<open>stats.t.rvs(*params, size=n)\<close>: \<open>n\<close> draws from the fitted Student-t
  distribution; a negative size raises \<open>ValueError\<close>. The draws are a parameter.
\<close>

definition t_rvs :: "(nat \<Rightarrow> real) \<Rightarrow> int \<Rightarrow> error + real list" where
  "t_rvs draw n = (if n < 0 then Inl ValueError else Inr (map draw [0..<nat n]))"

text \<open>
  The random and numerical sources of one run: the normal quantile function, the raw
  numbers behind the bootstrap draws (by round and position) and the draws from the
  fitted Student-t distribution (by trial and period). A fixed seed fixes all three.
\<close>

record environment =
  norm_quantile :: "real \<Rightarrow> real"
  choice_draw :: "nat \<Rightarrow> nat \<Rightarrow> nat"
  t_draw :: "nat \<Rightarrow> nat \<Rightarrow> real"

section \<open>Portfolio manager\<close>

text \<open>
  The state of \<^verbatim>\<open>PortfolioManager\<close> the risk calculator reads: the return table, the
  weights (one per column) and the portfolio value.
\<close>

record portfolio_manager =
  returns_data :: data_frame
  weights :: "real list"
  portfolio_value :: real

definition get_returns :: "portfolio_manager \<Rightarrow> data_frame" where
  "get_returns p = returns_data p"

definition get_weights :: "portfolio_manager \<Rightarrow> real list" where
  "get_weights p = weights p"

text \<open>\<^verbatim>\<open>(self.returns_data * self.weights).sum(axis=1)\<close>\<close>

definition get_portfolio_returns :: "portfolio_manager \<Rightarrow> real list" where
  "get_portfolio_returns p = map (\<lambda>r. sum_list (map2 (*) r (weights p))) (rows (returns_data p))"

text \<open>
  The shape the portfolio manager establishes: every row of the return table and the
  weight vector have one entry per column. numpy refuses other shapes.
\<close>

definition well_shaped :: "portfolio_manager \<Rightarrow> bool" where
  "well_shaped p =
     (length (weights p) = length (columns (returns_data p))
      \<and> list_all (\<lambda>r. length r = length (columns (returns_data p))) (rows (returns_data p)))"

section \<open>Risk calculator\<close>

record risk_calculator =
  portfolio :: portfolio_manager
  confidence_level :: real
  time_horizon :: int
  simulations :: int
  alpha :: real

text \<open>\<^verbatim>\<open>RiskCalculator.__init__\<close>: stores its arguments and sets \<open>alpha = 1 - confidence_level\<close>.\<close>

definition risk_calculator_init ::
  "portfolio_manager \<Rightarrow> real \<Rightarrow> int \<Rightarrow> int \<Rightarrow> error + risk_calculator" where
  "risk_calculator_init p cl th sims =
     Inr \<lparr>portfolio = p, confidence_level = cl, time_horizon = th, simulations = sims,
          alpha = 1 - cl\<rparr>"

subsection \<open>Historical VaR\<close>

text \<open>The pooled bootstrap sample of \<^verbatim>\<open>_calculate_historical_var\<close>: 1000 resamples of the scaled series.\<close>

definition scaled_returns :: "int \<Rightarrow> real list \<Rightarrow> npfloat list" where
  "scaled_returns th returns = map (\<lambda>r. np_mul (Fin r) (np_sqrt (Fin (real_of_int th)))) returns"

definition bootstrap_samples :: "(nat \<Rightarrow> nat \<Rightarrow> nat) \<Rightarrow> int \<Rightarrow> real list \<Rightarrow> npfloat list" where
  "bootstrap_samples draw th returns =
     concat (map (\<lambda>b. random_choice (draw b) (scaled_returns th returns)) [0..<1000])"

definition calculate_historical_var ::
  "(nat \<Rightarrow> nat \<Rightarrow> nat) \<Rightarrow> risk_calculator \<Rightarrow> real list \<Rightarrow> error + npfloat" where
  "calculate_historical_var draw self returns =
     (case np_percentile (bootstrap_samples draw (time_horizon self) returns) (alpha self * 100) of
        Inl e \<Rightarrow> Inl e
      | Inr var_percentile \<Rightarrow>
          Inr (np_abs (np_mul var_percentile (Fin (portfolio_value (portfolio self))))))"

subsection \<open>Covariance and parametric VaR\<close>

text \<open>\<^verbatim>\<open>DataFrame.dropna()\<close>: the cells of a table are reals, so no row has a missing value.\<close>

definition dropna :: "data_frame \<Rightarrow> data_frame" where
  "dropna df = df"

text \<open>\<^verbatim>\<open>np.dot(return_vec, return_vec.T)\<close> for a column vector: the outer product.\<close>

definition outer :: "real list \<Rightarrow> real list list" where
  "outer r = map (\<lambda>x. map (\<lambda>y. x * y) r) r"

text \<open>Multiplying a matrix by a scalar, as in \<^verbatim>\<open>returns.cov() * 252\<close>.\<close>

definition mat_scale :: "npfloat list list \<Rightarrow> real \<Rightarrow> npfloat list list" where
  "mat_scale m c = map (map (\<lambda>x. np_mul x (Fin c))) m"

text \<open>\<^verbatim>\<open>lambda_param * cov_matrix + (1 - lambda_param) * np.dot(return_vec, return_vec.T)\<close>\<close>

definition ewma_update :: "real \<Rightarrow> npfloat list list \<Rightarrow> real list \<Rightarrow> npfloat list list" where
  "ewma_update lambda_param cov_matrix return_vec =
     map2 (map2 (\<lambda>c x. np_add (np_mul (Fin lambda_param) c) (Fin ((1 - lambda_param) * x))))
       cov_matrix (outer return_vec)"

definition calculate_ewma_covariance :: "data_frame \<Rightarrow> real \<Rightarrow> npfloat list list" where
  "calculate_ewma_covariance returns lambda_param =
     (let returns_clean = dropna returns;
          n_obs = length (rows returns_clean);
          cov_matrix = mat_scale (cov returns_clean) 252
      in foldl (\<lambda>cov_matrix i. ewma_update lambda_param cov_matrix (rows returns_clean ! i))
           cov_matrix [1..<n_obs])"

text \<open>The default of \<^verbatim>\<open>lambda_param\<close>.\<close>

definition lambda_default :: real where
  "lambda_default = 94 / 100"

text \<open>\<^verbatim>\<open>np.dot(weights.T, np.dot(cov_matrix, weights))\<close>\<close>

definition quadratic_form :: "npfloat list list \<Rightarrow> real list \<Rightarrow> npfloat" where
  "quadratic_form cov_matrix w =
     np_dot (map Fin w) (map (\<lambda>row. np_dot row (map Fin w)) cov_matrix)"

definition calculate_parametric_var ::
  "(real \<Rightarrow> real) \<Rightarrow> risk_calculator \<Rightarrow> data_frame \<Rightarrow> npfloat" where
  "calculate_parametric_var quantile self returns =
     (let cov_matrix = calculate_ewma_covariance returns lambda_default;
          w = get_weights (portfolio self);
          portfolio_variance = quadratic_form cov_matrix w;
          portfolio_vol = np_sqrt (np_mul portfolio_variance (Fin (real_of_int (time_horizon self))));
          z_score = norm_ppf quantile (alpha self)
      in np_abs (np_mul (np_mul z_score portfolio_vol) (Fin (portfolio_value (portfolio self)))))"

subsection \<open>Monte Carlo VaR\<close>

text \<open>
  The scenario loop of \<^verbatim>\<open>_calculate_monte_carlo_var\<close>, over the trial numbers: each trial
  draws \<open>time_horizon\<close> returns, sums them and multiplies by the portfolio value. The
  parameters fitted by \<^verbatim>\<open>stats.t.fit\<close> are part of the draws.
\<close>

fun scenarios :: "(nat \<Rightarrow> nat \<Rightarrow> real) \<Rightarrow> int \<Rightarrow> real \<Rightarrow> nat list \<Rightarrow> error + npfloat list" where
  "scenarios draw th v [] = Inr []"
| "scenarios draw th v (i # trials) =
     (case t_rvs (draw i) th of
        Inl e \<Rightarrow> Inl e
      | Inr random_returns \<Rightarrow>
          (case scenarios draw th v trials of
             Inl e \<Rightarrow> Inl e
           | Inr rest \<Rightarrow> Inr (Fin (sum_list random_returns * v) # rest)))"

definition calculate_monte_carlo_var ::
  "(nat \<Rightarrow> nat \<Rightarrow> real) \<Rightarrow> risk_calculator \<Rightarrow> data_frame \<Rightarrow> error + npfloat" where
  "calculate_monte_carlo_var draw self returns =
     (case scenarios draw (time_horizon self) (portfolio_value (portfolio self))
             [0..<nat (simulations self)] of
        Inl e \<Rightarrow> Inl e
      | Inr scs \<Rightarrow>
          (case np_percentile scs (alpha self * 100) of
             Inl e \<Rightarrow> Inl e
           | Inr p \<Rightarrow> Inr (np_abs p)))"

subsection \<open>Volatility and Sharpe ratio\<close>

definition calculate_volatility :: "real list \<Rightarrow> npfloat" where
  "calculate_volatility returns = np_mul (series_std returns) (Fin (sqrt 252))"

definition calculate_sharpe_ratio :: "real list \<Rightarrow> real \<Rightarrow> npfloat" where
  "calculate_sharpe_ratio returns risk_free_rate =
     (let excess_returns = np_sub (np_mul (series_mean returns) (Fin 252)) (Fin risk_free_rate)
      in np_div excess_returns (calculate_volatility returns))"

text \<open>The default of \<^verbatim>\<open>risk_free_rate\<close>.\<close>

definition risk_free_rate_default :: real where
  "risk_free_rate_default = 2 / 100"

subsection \<open>Component VaR\<close>

text \<open>
  \<^verbatim>\<open>_calculate_component_var\<close>: the annualised sample covariance, the portfolio volatility
  \<open>portfolio_var\<close>, and for each column \<open>i\<close> the entry
  \<open>weights[i] * (cov_matrix.iloc[i] . weights / portfolio_var) * value\<close>.
\<close>

definition annual_cov :: "data_frame \<Rightarrow> npfloat list list" where
  "annual_cov returns = mat_scale (cov returns) 252"

definition component_portfolio_var :: "portfolio_manager \<Rightarrow> data_frame \<Rightarrow> npfloat" where
  "component_portfolio_var p returns = np_sqrt (quadratic_form (annual_cov returns) (get_weights p))"

definition component_var :: "portfolio_manager \<Rightarrow> data_frame \<Rightarrow> nat \<Rightarrow> npfloat" where
  "component_var p returns i =
     (let w = get_weights p;
          marginal_var = np_div (np_dot (annual_cov returns ! i) (map Fin w))
                           (component_portfolio_var p returns);
          component = np_mul (Fin (w ! i)) marginal_var
      in np_mul component (Fin (portfolio_value p)))"

definition calculate_component_var :: "risk_calculator \<Rightarrow> data_frame \<Rightarrow> (string \<rightharpoonup> npfloat)" where
  "calculate_component_var self returns =
     foldl (\<lambda>component_vars (i, asset). component_vars(asset \<mapsto> component_var (portfolio self) returns i))
       Map.empty (enumerate 0 (columns returns))"

subsection \<open>All methods\<close>

record var_results =
  historical :: npfloat
  "parametric" :: npfloat
  monte_carlo :: npfloat
  volatility :: npfloat
  sharpe_ratio :: npfloat
  max_drawdown :: npfloat
  var_breakdown :: "string \<rightharpoonup> npfloat"

text \<open>
  \<^verbatim>\<open>calculate_all_var_methods\<close>: the entries are computed in the order of the dictionary
  literal; the first exception aborts the call.
\<close>

definition calculate_all_var_methods :: "environment \<Rightarrow> risk_calculator \<Rightarrow> error + var_results" where
  "calculate_all_var_methods env self =
     (let returns = get_returns (portfolio self);
          portfolio_returns = get_portfolio_returns (portfolio self)
      in case calculate_historical_var (choice_draw env) self portfolio_returns of
           Inl e \<Rightarrow> Inl e
         | Inr h \<Rightarrow>
             (case calculate_monte_carlo_var (t_draw env) self returns of
                Inl e \<Rightarrow> Inl e
              | Inr m \<Rightarrow>
                  Inr \<lparr>historical = h,
                       parametric = calculate_parametric_var (norm_quantile env) self returns,
                       monte_carlo = m,
                       volatility = calculate_volatility portfolio_returns,
                       sharpe_ratio = calculate_sharpe_ratio portfolio_returns risk_free_rate_default,
                       max_drawdown = calculate_max_drawdown portfolio_returns,
                       var_breakdown = calculate_component_var self returns\<rparr>))"

section \<open>Real-valued counterparts\<close>

text \<open>
  Where every value is finite the float computations above are computations on reals.
  The definitions of this section state them on reals; the lemmas below connect them to
  the float model.
\<close>

definition dot :: "real list \<Rightarrow> real list \<Rightarrow> real" where
  "dot xs ys = sum_list (map2 (*) xs ys)"

definition quad :: "real list list \<Rightarrow> real list \<Rightarrow> real" where
  "quad m w = dot w (map (\<lambda>row. dot row w) m)"

definition fin_matrix :: "real list list \<Rightarrow> npfloat list list" where
  "fin_matrix m = map (map Fin) m"

text \<open>The sample covariance matrix of a table with at least two rows.\<close>

definition cov_real :: "data_frame \<Rightarrow> real list list" where
  "cov_real df =
     (let n = length (columns df) in map (\<lambda>i. map (\<lambda>j. cov_entry df i j) [0..<n]) [0..<n])"

definition annual_cov_real :: "data_frame \<Rightarrow> real list list" where
  "annual_cov_real df = map (map (\<lambda>x. x * 252)) (cov_real df)"

definition ewma_update_real :: "real \<Rightarrow> real list list \<Rightarrow> real list \<Rightarrow> real list list" where
  "ewma_update_real l m r = map2 (map2 (\<lambda>c x. l * c + (1 - l) * x)) m (outer r)"

definition ewma_real :: "data_frame \<Rightarrow> real \<Rightarrow> real list list" where
  "ewma_real df l =
     foldl (\<lambda>m i. ewma_update_real l m (rows df ! i)) (annual_cov_real df) [1..<length (rows df)]"

definition square :: "nat \<Rightarrow> real list list \<Rightarrow> bool" where
  "square n m = (length m = n \<and> list_all (\<lambda>row. length row = n) m)"

text \<open>Symmetry and positive semi-definiteness of an \<open>n \<times> n\<close> matrix.\<close>

definition symmetric :: "nat \<Rightarrow> real list list \<Rightarrow> bool" where
  "symmetric n m = (\<forall>i<n. \<forall>j<n. m ! i ! j = m ! j ! i)"

definition positive_semidefinite :: "nat \<Rightarrow> real list list \<Rightarrow> bool" where
  "positive_semidefinite n m = (\<forall>w. length w = n \<longrightarrow> 0 \<le> quad m w)"




text \<open>
  The percentile of a non-empty sample of finite values, for \<open>q\<close> in [0, 100]: linear
  interpolation between the order statistics next to the virtual index.
\<close>

definition percentile_real :: "real list \<Rightarrow> real \<Rightarrow> real" where
  "percentile_real xs q =
     (let s = sort xs;
          n = length s;
          t = q / 100 * real (n - 1);
          k = nat \<lfloor>t\<rfloor>;
          k' = min (k + 1) (n - 1)
      in s ! k + (s ! k' - s ! k) * (t - real k))"

text \<open>The bootstrap pool and the Monte Carlo scenarios for a horizon that is not negative.\<close>

definition bootstrap_real :: "(nat \<Rightarrow> nat \<Rightarrow> nat) \<Rightarrow> int \<Rightarrow> real list \<Rightarrow> real list" where
  "bootstrap_real draw th returns =
     concat (map (\<lambda>b. random_choice (draw b) (map (\<lambda>r. r * sqrt (real_of_int th)) returns))
       [0..<1000])"

definition scenarios_real :: "(nat \<Rightarrow> nat \<Rightarrow> real) \<Rightarrow> int \<Rightarrow> real \<Rightarrow> nat list \<Rightarrow> real list" where
  "scenarios_real draw th v trials = map (\<lambda>i. sum_list (map (draw i) [0..<nat th]) * v) trials"

section \<open>Concrete inputs\<close>

text \<open>
  A coarse table of the standard normal quantile function (its values at 0.01, 0.05 and
  0.5, to three decimals, extended to a monotone step function), for the concrete
  instances below.
\<close>

definition tabulated_quantile :: "real \<Rightarrow> real" where
  "tabulated_quantile p =
     (if p \<le> 1 / 100 then - 2326 / 1000
      else if p \<le> 1 / 20 then - 1645 / 1000
      else if p \<le> 1 / 2 then 0
      else 1645 / 1000)"

text \<open>Two assets that move against each other, held with equal weights.\<close>

definition hedged_returns :: data_frame where
  "hedged_returns = \<lparr>columns = [''A'', ''B''], rows = [[1/100, -3/100], [-1/100, 3/100]]\<rparr>"

definition hedged_portfolio :: portfolio_manager where
  "hedged_portfolio =
     \<lparr>returns_data = hedged_returns, weights = [1/2, 1/2], portfolio_value = 100000\<rparr>"

definition hedged_calculator :: risk_calculator where
  "hedged_calculator =
     \<lparr>portfolio = hedged_portfolio, confidence_level = 95 / 100, time_horizon = 1,
      simulations = 10000, alpha = 1 - 95 / 100\<rparr>"

text \<open>
  A run whose bootstrap resamples repeat the series as it is and whose Student-t draws
  are all 0.
\<close>

definition example_env :: environment where
  "example_env = \<lparr>norm_quantile = tabulated_quantile, choice_draw = (\<lambda>b j. j), t_draw = (\<lambda>i j. 0)\<rparr>"

text \<open>The hedged portfolio with a horizon of 0.\<close>

definition zero_horizon_calculator :: risk_calculator where
  "zero_horizon_calculator =
     \<lparr>portfolio = hedged_portfolio, confidence_level = 95 / 100, time_horizon = 0,
      simulations = 10000, alpha = 1 - 95 / 100\<rparr>"

text \<open>Two assets whose returns are all zero.\<close>

definition flat_returns :: data_frame where
  "flat_returns = \<lparr>columns = [''A'', ''B''], rows = [[0, 0], [0, 0]]\<rparr>"

definition flat_portfolio :: portfolio_manager where
  "flat_portfolio = \<lparr>returns_data = flat_returns, weights = [1/2, 1/2], portfolio_value = 100000\<rparr>"

definition flat_calculator :: risk_calculator where
  "flat_calculator =
     \<lparr>portfolio = flat_portfolio, confidence_level = 95 / 100, time_horizon = 1,
      simulations = 10000, alpha = 1 - 95 / 100\<rparr>"

text \<open>A return table with a single observation.\<close>

definition single_row_returns :: data_frame where
  "single_row_returns = \<lparr>columns = [''A'', ''B''], rows = [[1/100, 2/100]]\<rparr>"

definition single_row_portfolio :: portfolio_manager where
  "single_row_portfolio =
     \<lparr>returns_data = single_row_returns, weights = [1/2, 1/2], portfolio_value = 100000\<rparr>"

definition single_row_calculator :: risk_calculator where
  "single_row_calculator =
     \<lparr>portfolio = single_row_portfolio, confidence_level = 95 / 100, time_horizon = 1,
      simulations = 10000, alpha = 1 - 95 / 100\<rparr>"









section \<open>The numeric layer on finite values\<close>

lemma np_sum_Fin: "np_sum (map Fin xs) = Fin (sum_list xs)"
  by (induction xs) (simp_all add: np_sum_def)

lemma map2_np_mul_Fin: "map2 np_mul (map Fin xs) (map Fin ys) = map Fin (map2 (*) xs ys)"
  by (induction xs arbitrary: ys) (simp, case_tac ys, simp_all)

lemma np_dot_Fin: "np_dot (map Fin xs) (map Fin ys) = Fin (dot xs ys)"
  by (simp add: np_dot_def dot_def map2_np_mul_Fin np_sum_Fin del: map_map)

lemma quadratic_form_Fin: "quadratic_form (fin_matrix m) w = Fin (quad m w)"
proof -
  have "map (\<lambda>row. np_dot row (map Fin w)) (fin_matrix m) = map Fin (map (\<lambda>row. dot row w) m)"
    by (simp add: fin_matrix_def np_dot_Fin)
  then show ?thesis
    unfolding quadratic_form_def quad_def by (simp only: np_dot_Fin)
qed

lemma cov_Fin: "2 \<le> length (rows df) \<Longrightarrow> cov df = fin_matrix (cov_real df)"
  by (simp add: cov_def cov_real_def fin_matrix_def Let_def)

lemma mat_scale_Fin: "mat_scale (fin_matrix m) c = fin_matrix (map (map (\<lambda>x. x * c)) m)"
  by (simp add: mat_scale_def fin_matrix_def)

lemma np_sum_NaN: "NaN \<in> set xs \<Longrightarrow> np_sum xs = NaN"
proof (induction xs)
  case Nil then show ?case by simp
next
  case (Cons x xs)
  show ?case
  proof (cases "x = NaN")
    case True then show ?thesis by (simp add: np_sum_def)
  next
    case False
    with Cons have "np_sum xs = NaN" by simp
    then show ?thesis by (cases x) (simp_all add: np_sum_def)
  qed
qed

lemma foldl_update_other:
  "a \<notin> set xs \<Longrightarrow> foldl (\<lambda>m (i, k). m(k \<mapsto> f i)) m0 (enumerate n xs) a = m0 a"
  by (induction xs arbitrary: m0 n) simp_all

lemma foldl_update_nth:
  "distinct xs \<Longrightarrow> i < length xs \<Longrightarrow>
   foldl (\<lambda>m (i, k). m(k \<mapsto> f i)) m0 (enumerate n xs) (xs ! i) = Some (f (n + i))"
proof (induction xs arbitrary: m0 n i)
  case Nil then show ?case by simp
next
  case (Cons x xs)
  show ?case
  proof (cases i)
    case 0
    have "x \<notin> set xs" using Cons.prems by simp
    then have "foldl (\<lambda>m (i, k). m(k \<mapsto> f i)) (m0(x \<mapsto> f n)) (enumerate (Suc n) xs) x
                 = (m0(x \<mapsto> f n)) x"
      by (rule foldl_update_other)
    with 0 show ?thesis by (simp del: fun_upd_apply) simp
  next
    case (Suc j)
    with Cons.prems Cons.IH [of j "m0(x \<mapsto> f n)" "Suc n"] show ?thesis by (simp del: fun_upd_apply)
  qed
qed

lemma component_var_dict:
  "distinct (columns returns) \<Longrightarrow> i < length (columns returns) \<Longrightarrow>
   calculate_component_var self returns (columns returns ! i)
     = Some (component_var (portfolio self) returns i)"
  unfolding calculate_component_var_def
  using foldl_update_nth [of "columns returns" i "\<lambda>i. component_var (portfolio self) returns i" Map.empty 0]
  by simp

lemma dot_nth: "length xs = length ys \<Longrightarrow> dot xs ys = (\<Sum>i<length xs. xs ! i * ys ! i)"
  unfolding dot_def
  by (simp add: sum_list_sum_nth atLeast0LessThan)

lemma annual_cov_Fin: "2 \<le> length (rows df) \<Longrightarrow> annual_cov df = fin_matrix (annual_cov_real df)"
  by (simp add: annual_cov_def annual_cov_real_def cov_Fin mat_scale_Fin)

lemma length_annual_cov_real [simp]: "length (annual_cov_real df) = length (columns df)"
  by (simp add: annual_cov_real_def cov_real_def Let_def)

lemma np_dot_NaN_right:
  "length xs = length ys \<Longrightarrow> NaN \<in> set ys \<Longrightarrow> np_dot xs ys = NaN"
proof -
  assume len: "length xs = length ys" and "NaN \<in> set ys"
  then obtain i where i: "i < length ys" "ys ! i = NaN" by (auto simp: in_set_conv_nth)
  then have "map2 np_mul xs ys ! i = NaN" using len by (cases "xs ! i") simp_all
  then have "NaN \<in> set (map2 np_mul xs ys)"
    using i len by (metis length_map length_zip min.idem nth_mem)
  then show ?thesis by (simp add: np_dot_def np_sum_NaN)
qed

lemma np_dot_NaN_left:
  "length xs = length ys \<Longrightarrow> NaN \<in> set xs \<Longrightarrow> np_dot xs ys = NaN"
proof -
  assume len: "length xs = length ys" and "NaN \<in> set xs"
  then obtain i where i: "i < length xs" "xs ! i = NaN" by (auto simp: in_set_conv_nth)
  then have "map2 np_mul xs ys ! i = NaN" using len by simp
  then have "NaN \<in> set (map2 np_mul xs ys)"
    using i len by (metis length_map length_zip min.idem nth_mem)
  then show ?thesis by (simp add: np_dot_def np_sum_NaN)
qed

lemma annual_cov_few_rows:
  "length (rows df) < 2 \<Longrightarrow>
   annual_cov df = replicate (length (columns df)) (replicate (length (columns df)) NaN)"
  by (simp add: annual_cov_def cov_def mat_scale_def map_replicate_const Let_def)

lemma quadratic_form_few_rows:
  assumes "length (rows df) < 2" "0 < length (columns df)" "length w = length (columns df)"
  shows "quadratic_form (annual_cov df) w = NaN"
proof -
  let ?N = "length (columns df)"
  have row: "np_dot (replicate ?N NaN) (map Fin w) = NaN"
    using assms by (intro np_dot_NaN_left) simp_all
  have "map (\<lambda>row. np_dot row (map Fin w)) (annual_cov df) = replicate ?N NaN"
    using assms(1) row by (simp add: annual_cov_few_rows map_replicate_const)
  then show ?thesis
    unfolding quadratic_form_def using assms by (simp add: np_dot_NaN_right)
qed

lemma quad_nth:
  "length m = length w \<Longrightarrow> quad m w = (\<Sum>i<length w. w ! i * dot (m ! i) w)"
  unfolding quad_def by (simp add: dot_nth)

section \<open>Max drawdown\<close>

lemma cumprod_from_eq:
  "cumprod_from a xs = map (\<lambda>k. a * prod_list (take (Suc k) xs)) [0..<length xs]"
proof (induction xs arbitrary: a)
  case Nil
  then show ?case by simp
next
  case (Cons x xs)
  have "map (\<lambda>k. a * prod_list (take (Suc k) (x # xs))) [0..<length (x # xs)]
        = (a * x) # map (\<lambda>k. a * prod_list (take (Suc k) (x # xs))) (map Suc [0..<length xs])"
    by (simp add: upt_conv_Cons map_Suc_upt del: upt_Suc)
  also have "\<dots> = (a * x) # map (\<lambda>k. (a * x) * prod_list (take (Suc k) xs)) [0..<length xs]"
    by (simp add: mult.assoc)
  finally show ?case using Cons.IH [of "a * x"] by simp
qed

lemma cumprod_eq_wealth:
  "cumprod (map (\<lambda>r. 1 + r) returns) = map (wealth returns) [0..<length returns]"
  by (simp add: cumprod_def cumprod_from_eq wealth_def take_map)

lemma expanding_max_from_eq:
  "expanding_max_from m xs = map (\<lambda>k. Max (insert m (set (take (Suc k) xs)))) [0..<length xs]"
proof (induction xs arbitrary: m)
  case Nil
  then show ?case by simp
next
  case (Cons x xs)
  have "map (\<lambda>k. Max (insert m (set (take (Suc k) (x # xs))))) [0..<length (x # xs)]
        = max m x # map (\<lambda>k. Max (insert m (set (take (Suc k) (x # xs))))) (map Suc [0..<length xs])"
    by (simp add: upt_conv_Cons map_Suc_upt max.commute del: upt_Suc)
  also have "\<dots> = max m x # map (\<lambda>k. Max (insert (max m x) (set (take (Suc k) xs)))) [0..<length xs]"
  proof -
    have "Max (insert m (insert x A)) = Max (insert (max m x) A)" if "finite A" for A :: "real set"
    proof (cases "A = {}")
      case True
      then show ?thesis by (simp add: max.commute)
    next
      case False
      with that show ?thesis by (simp add: max.assoc max.commute max.left_commute)
    qed
    then show ?thesis by simp
  qed
  finally show ?case using Cons.IH [of "max m x"] by simp
qed

lemma expanding_max_eq:
  "expanding_max xs = map (\<lambda>k. Max (set (take (Suc k) xs))) [0..<length xs]"
proof (cases xs)
  case Nil
  then show ?thesis by simp
next
  case (Cons x ys)
  have "map (\<lambda>k. Max (set (take (Suc k) (x # ys)))) [0..<length (x # ys)]
        = x # map (\<lambda>k. Max (set (take (Suc k) (x # ys)))) (map Suc [0..<length ys])"
    by (simp add: upt_conv_Cons map_Suc_upt del: upt_Suc)
  also have "\<dots> = x # map (\<lambda>k. Max (insert x (set (take (Suc k) ys)))) [0..<length ys]"
    by simp
  finally show ?thesis using Cons by (simp add: expanding_max_from_eq)
qed

lemma take_map_upt:
  "k < n \<Longrightarrow> set (take (Suc k) (map f [0..<n])) = f ` {..k}"
proof -
  assume "k < n"
  then have "take (Suc k) (map f [0..<n]) = map f [0..<Suc k]"
    by (simp add: take_map min_def)
  then show ?thesis
    by (simp add: atMost_upto lessThan_Suc_atMost [symmetric] atLeast_upt [symmetric] del: upt_Suc)
qed

lemma expanding_max_wealth:
  "expanding_max (map (wealth returns) [0..<length returns])
     = map (running_max returns) [0..<length returns]"
  by (simp add: expanding_max_eq running_max_def take_map_upt)

lemma drawdown_series:
  "map2 (\<lambda>c m. np_div (Fin (c - m)) (Fin m))
      (map (wealth returns) [0..<length returns]) (map (running_max returns) [0..<length returns])
   = map (drawdown_at returns) [0..<length returns]"
  by (simp add: zip_map_map zip_same_conv_map drawdown_at_def)

lemma max_drawdown_closed_form:
  "calculate_max_drawdown returns
     = np_abs (series_min (map (drawdown_at returns) [0..<length returns]))"
  unfolding calculate_max_drawdown_def Let_def
  by (simp only: cumprod_eq_wealth expanding_max_wealth drawdown_series)

lemma max_drawdown_scenario:
  "calculate_max_drawdown [1/10, -1/5, 1/20] = Fin (1/5)"
  by (simp add: calculate_max_drawdown_def cumprod_def series_min_def np_min2_def)

lemma max_drawdown_recovery:
  "calculate_max_drawdown [-1/2, 1] = Fin 0"
  by (simp add: calculate_max_drawdown_def cumprod_def series_min_def np_min2_def)

text \<open>
  Claim C7. The max-drawdown computation builds the wealth curve as the cumulative
  product of \<open>1 + return\<close>, measures each point against the running maximum of the curve
  up to that point, and returns the absolute value of the smallest drawdown. On the
  return sequence 0.10, -0.20, 0.05 it returns 0.20. On -0.50, 1.00 (wealth 0.5, then
  1.0) it returns 0: the first point is measured against the maximum so far, 0.5, not
  against the maximum of the whole curve, 1.0.
\<close>

theorem max_drawdown_running_maximum:
  "calculate_max_drawdown returns
     = np_abs (series_min (map (drawdown_at returns) [0..<length returns]))
   \<and> calculate_max_drawdown [1/10, -1/5, 1/20] = Fin (1/5)
   \<and> calculate_max_drawdown [-1/2, 1] = Fin 0"
  using max_drawdown_closed_form max_drawdown_scenario max_drawdown_recovery by blast

section \<open>Component VaR\<close>

lemma positive_vol_rows:
  assumes shape: "length (get_weights p) = length (columns returns)"
    and vol: "component_portfolio_var p returns = Fin v" and pos: "0 < v"
  shows "2 \<le> length (rows returns)"
proof (rule ccontr)
  assume "\<not> 2 \<le> length (rows returns)"
  then have few: "length (rows returns) < 2" by simp
  show False
  proof (cases "length (columns returns) = 0")
    case True
    then have "annual_cov returns = []"
      by (simp add: annual_cov_def cov_def mat_scale_def)
    then have "component_portfolio_var p returns = Fin 0"
      by (simp add: component_portfolio_var_def quadratic_form_def np_dot_def np_sum_def)
    with vol pos show False by simp
  next
    case False
    then have "quadratic_form (annual_cov returns) (get_weights p) = NaN"
      using few shape by (intro quadratic_form_few_rows) simp_all
    with vol show False by (simp add: component_portfolio_var_def)
  qed
qed

lemma component_var_Fin:
  assumes shape: "length (get_weights p) = length (columns returns)"
    and vol: "component_portfolio_var p returns = Fin v" and pos: "0 < v"
    and i: "i < length (columns returns)"
  shows "component_var p returns i
           = Fin (get_weights p ! i * (dot (annual_cov_real returns ! i) (get_weights p) / v)
                    * portfolio_value p)"
proof -
  have rows2: "2 \<le> length (rows returns)" using positive_vol_rows [OF shape vol pos] .
  have "annual_cov returns ! i = map Fin (annual_cov_real returns ! i)"
    using i by (simp add: annual_cov_Fin [OF rows2] fin_matrix_def)
  then show ?thesis
    unfolding component_var_def Let_def vol using pos by (simp add: np_dot_Fin)
qed

lemma vol_squared:
  assumes shape: "length (get_weights p) = length (columns returns)"
    and vol: "component_portfolio_var p returns = Fin v" and pos: "0 < v"
  shows "quad (annual_cov_real returns) (get_weights p) = v * v"
proof -
  have rows2: "2 \<le> length (rows returns)" using positive_vol_rows [OF shape vol pos] .
  have "np_sqrt (Fin (quad (annual_cov_real returns) (get_weights p))) = Fin v"
    using vol by (simp add: component_portfolio_var_def annual_cov_Fin [OF rows2] quadratic_form_Fin)
  then have "0 \<le> quad (annual_cov_real returns) (get_weights p)"
    and "sqrt (quad (annual_cov_real returns) (get_weights p)) = v"
    by (simp_all split: if_splits)
  then show ?thesis by (metis real_sqrt_mult_self abs_of_nonneg real_sqrt_abs2 real_sqrt_pow2 power2_eq_square)
qed

lemma component_values:
  assumes "distinct (columns returns)"
  shows "map (\<lambda>asset. the (calculate_component_var self returns asset)) (columns returns)
           = map (component_var (portfolio self) returns) [0..<length (columns returns)]"
  by (rule nth_equalityI) (simp_all add: component_var_dict [OF assms])

text \<open>
  Claim C6, as amended. For every return table and weight vector (one weight per column,
  distinct column names) with strictly positive portfolio volatility \<open>v\<close>, the component
  VaR values that \<^verbatim>\<open>_calculate_component_var\<close> stores sum to \<open>v\<close> times the portfolio value
  (Euler's identity; exact on reals). Here \<open>v\<close> is the volatility of the annualised sample
  covariance: no z-score, horizon or EWMA weighting enters the sum.
\<close>

theorem component_var_euler_sum:
  assumes shape: "length (get_weights (portfolio self)) = length (columns returns)"
    and dist: "distinct (columns returns)"
    and vol: "component_portfolio_var (portfolio self) returns = Fin v" and pos: "0 < v"
  shows "np_sum (map (\<lambda>asset. the (calculate_component_var self returns asset)) (columns returns))
           = Fin (v * portfolio_value (portfolio self))"
proof -
  let ?p = "portfolio self"
  let ?w = "get_weights ?p"
  let ?C = "annual_cov_real returns"
  let ?N = "length (columns returns)"
  let ?V = "portfolio_value ?p"
  have "map (component_var ?p returns) [0..<?N]
          = map Fin (map (\<lambda>i. ?w ! i * (dot (?C ! i) ?w / v) * ?V) [0..<?N])"
    by (simp add: component_var_Fin [OF shape vol pos])
  then have "np_sum (map (\<lambda>asset. the (calculate_component_var self returns asset)) (columns returns))
          = Fin (\<Sum>i\<leftarrow>[0..<?N]. ?w ! i * (dot (?C ! i) ?w / v) * ?V)"
    by (simp only: component_values [OF dist] np_sum_Fin)
  also have "(\<Sum>i\<leftarrow>[0..<?N]. ?w ! i * (dot (?C ! i) ?w / v) * ?V)
          = (\<Sum>i<?N. ?w ! i * dot (?C ! i) ?w) * ?V / v"
    by (simp add: sum_list_sum_nth atLeast0LessThan sum_distrib_right sum_divide_distrib interv_sum_list_conv_sum_set_nat)
  also have "(\<Sum>i<?N. ?w ! i * dot (?C ! i) ?w) = v * v"
    using quad_nth [of ?C ?w] shape vol_squared [OF shape vol pos] by simp
  also have "v * v * ?V / v = v * ?V" using pos by simp
  finally show ?thesis .
qed

section \<open>EWMA covariance\<close>

lemma map2_Fin_left:
  "map2 (\<lambda>c x. np_add (np_mul (Fin l) c) (Fin (k * x))) (map Fin cs) xs
     = map Fin (map2 (\<lambda>c x. l * c + k * x) cs xs)"
  by (induction cs arbitrary: xs) (simp, case_tac xs, simp_all)

lemma ewma_update_Fin:
  "ewma_update l (fin_matrix m) r = fin_matrix (ewma_update_real l m r)"
proof -
  have "map2 (map2 (\<lambda>c x. np_add (np_mul (Fin l) c) (Fin ((1 - l) * x)))) (map (map Fin) m) os
          = map (map Fin) (map2 (map2 (\<lambda>c x. l * c + (1 - l) * x)) m os)" for os
    by (induction m arbitrary: os) (simp, case_tac os, simp_all add: map2_Fin_left)
  then show ?thesis by (simp add: ewma_update_def ewma_update_real_def fin_matrix_def)
qed

lemma foldl_ewma_Fin:
  "foldl (\<lambda>m i. ewma_update l m (f i)) (fin_matrix m0) ks
     = fin_matrix (foldl (\<lambda>m i. ewma_update_real l m (f i)) m0 ks)"
  by (induction ks arbitrary: m0) (simp_all add: ewma_update_Fin)

lemma ewma_covariance_Fin:
  "2 \<le> length (rows df) \<Longrightarrow> calculate_ewma_covariance df l = fin_matrix (ewma_real df l)"
  unfolding calculate_ewma_covariance_def Let_def dropna_def ewma_real_def
  using annual_cov_Fin [of df] by (simp add: annual_cov_def foldl_ewma_Fin)

lemma annual_cov_real_nth:
  "i < length (columns df) \<Longrightarrow> j < length (columns df) \<Longrightarrow>
   annual_cov_real df ! i ! j = cov_entry df i j * 252"
  by (simp add: annual_cov_real_def cov_real_def Let_def)

lemma square_annual_cov_real: "square (length (columns df)) (annual_cov_real df)"
  by (simp add: square_def annual_cov_real_def cov_real_def Let_def list_all_iff)

lemma square_nth: "square n m \<Longrightarrow> i < n \<Longrightarrow> length (m ! i) = n"
  by (simp add: square_def list_all_length)

lemma ewma_update_real_nth:
  assumes "square n m" "length r = n" "i < n" "j < n"
  shows "ewma_update_real l m r ! i ! j = l * (m ! i ! j) + (1 - l) * (r ! i * r ! j)"
proof -
  have "length m = n" using assms by (simp add: square_def)
  moreover have "length (m ! i) = n" using assms square_nth by blast
  ultimately show ?thesis
    using assms by (simp add: ewma_update_real_def outer_def)
qed

lemma square_ewma_update_real:
  assumes "square n m" "length r = n"
  shows "square n (ewma_update_real l m r)"
proof -
  have len: "length m = n" using assms by (simp add: square_def)
  have "length (ewma_update_real l m r ! i) = n" if "i < n" for i
    using that assms len square_nth [OF assms(1) that]
    by (simp add: ewma_update_real_def outer_def)
  moreover have "length (ewma_update_real l m r) = n"
    using assms len by (simp add: ewma_update_real_def outer_def)
  ultimately show ?thesis by (simp add: square_def list_all_length)
qed

lemma quad_entries:
  assumes "square n m" "length w = n"
  shows "quad m w = (\<Sum>i<n. \<Sum>j<n. w ! i * (m ! i ! j) * w ! j)"
proof -
  have len: "length m = n" using assms by (simp add: square_def)
  have "dot (m ! i) w = (\<Sum>j<n. m ! i ! j * w ! j)" if "i < n" for i
    using square_nth [OF assms(1) that] assms(2) by (simp add: dot_nth)
  then have "(\<Sum>i<n. w ! i * dot (m ! i) w) = (\<Sum>i<n. \<Sum>j<n. w ! i * (m ! i ! j) * w ! j)"
    by (simp add: sum_distrib_left mult.assoc)
  then show ?thesis using quad_nth [of m w] len assms(2) by simp
qed

lemma quad_ewma_update_real:
  assumes "square n m" "length r = n" "length w = n"
  shows "quad (ewma_update_real l m r) w = l * quad m w + (1 - l) * (dot r w)\<^sup>2"
proof -
  have "quad (ewma_update_real l m r) w
          = (\<Sum>i<n. \<Sum>j<n. w ! i * (l * (m ! i ! j) + (1 - l) * (r ! i * r ! j)) * w ! j)"
    using quad_entries [OF square_ewma_update_real [OF assms(1,2)] assms(3)]
    by (simp add: ewma_update_real_nth [OF assms(1,2)])
  also have "\<dots> = l * (\<Sum>i<n. \<Sum>j<n. w ! i * (m ! i ! j) * w ! j)
                  + (1 - l) * (\<Sum>i<n. \<Sum>j<n. (r ! i * w ! i) * (r ! j * w ! j))"
    by (simp add: sum_distrib_left sum.distrib [symmetric] algebra_simps)
  also have "(\<Sum>i<n. \<Sum>j<n. (r ! i * w ! i) * (r ! j * w ! j)) = (dot r w)\<^sup>2"
    using assms by (simp add: dot_nth power2_eq_square sum_product)
  finally show ?thesis using quad_entries [OF assms(1,3)] by simp
qed

lemma sum_sum_list_swap:
  "(\<Sum>i<n. sum_list (map (g i) rs)) = sum_list (map (\<lambda>r. \<Sum>i<n. g i r) rs)"
  by (induction rs) (simp_all add: sum.distrib)

lemma quad_annual_cov_real:
  assumes "length w = length (columns df)"
  shows "quad (annual_cov_real df) w
           = 252 / real (length (rows df) - 1)
             * (\<Sum>r\<leftarrow>rows df. (\<Sum>i<length (columns df). w ! i * (r ! i - mean (column df i)))\<^sup>2)"
proof -
  let ?N = "length (columns df)"
  let ?d = "\<lambda>i r. r ! i - mean (column df i)"
  let ?c = "252 / real (length (rows df) - 1)"
  have "quad (annual_cov_real df) w = (\<Sum>i<?N. \<Sum>j<?N. w ! i * (cov_entry df i j * 252) * w ! j)"
    using quad_entries [OF square_annual_cov_real assms] by (simp add: annual_cov_real_nth)
  also have "\<dots> = (\<Sum>i<?N. \<Sum>j<?N. ?c * (\<Sum>r\<leftarrow>rows df. (w ! i * ?d i r) * (w ! j * ?d j r)))"
  proof -
    have "w ! i * (cov_entry df i j * 252) * w ! j
            = ?c * (\<Sum>r\<leftarrow>rows df. (w ! i * ?d i r) * (w ! j * ?d j r))" for i j
    proof -
      have "(\<Sum>r\<leftarrow>rows df. (w ! i * ?d i r) * (w ! j * ?d j r))
              = (\<Sum>r\<leftarrow>rows df. (w ! i * w ! j) * (?d i r * ?d j r))"
        by (simp add: ac_simps)
      also have "\<dots> = (w ! i * w ! j) * (\<Sum>r\<leftarrow>rows df. ?d i r * ?d j r)"
        by (rule sum_list_const_mult)
      finally show ?thesis by (simp add: cov_entry_def)
    qed
    then show ?thesis by simp
  qed
  also have "\<dots> = ?c * (\<Sum>i<?N. \<Sum>j<?N. (\<Sum>r\<leftarrow>rows df. (w ! i * ?d i r) * (w ! j * ?d j r)))"
    by (simp add: sum_distrib_left)
  also have "(\<Sum>i<?N. \<Sum>j<?N. (\<Sum>r\<leftarrow>rows df. (w ! i * ?d i r) * (w ! j * ?d j r)))
           = (\<Sum>r\<leftarrow>rows df. \<Sum>i<?N. \<Sum>j<?N. (w ! i * ?d i r) * (w ! j * ?d j r))"
    by (simp add: sum_sum_list_swap)
  also have "\<dots> = (\<Sum>r\<leftarrow>rows df. (\<Sum>i<?N. w ! i * ?d i r)\<^sup>2)"
    by (simp add: power2_eq_square sum_product)
  finally show ?thesis .
qed

lemma psd_annual_cov_real: "positive_semidefinite (length (columns df)) (annual_cov_real df)"
proof -
  have "0 \<le> quad (annual_cov_real df) w" if "length w = length (columns df)" for w
  proof -
    have "0 \<le> (\<Sum>r\<leftarrow>rows df. (\<Sum>i<length (columns df). w ! i * (r ! i - mean (column df i)))\<^sup>2)"
      by (rule sum_list_nonneg) auto
    moreover have "0 \<le> 252 / real (length (rows df) - 1)" by simp
    ultimately show ?thesis
      unfolding quad_annual_cov_real [OF that] by (rule mult_nonneg_nonneg [rotated])
  qed
  then show ?thesis by (simp add: positive_semidefinite_def)
qed

lemma symmetric_annual_cov_real: "symmetric (length (columns df)) (annual_cov_real df)"
  by (simp add: symmetric_def annual_cov_real_nth cov_entry_def mult.commute)

lemma psd_ewma_update_real:
  assumes "square n m" "length r = n" "positive_semidefinite n m" "0 \<le> l" "l \<le> 1"
  shows "positive_semidefinite n (ewma_update_real l m r)"
  using assms unfolding positive_semidefinite_def
  by (auto simp: quad_ewma_update_real intro!: add_nonneg_nonneg mult_nonneg_nonneg)

lemma symmetric_ewma_update_real:
  assumes "square n m" "length r = n" "symmetric n m"
  shows "symmetric n (ewma_update_real l m r)"
  using assms(3) unfolding symmetric_def
  by (simp add: ewma_update_real_nth [OF assms(1,2)] mult.commute)

lemma foldl_ewma_invariant:
  assumes "list_all (\<lambda>r. length r = n) rs" "0 \<le> l" "l \<le> 1"
    and "square n m" "symmetric n m" "positive_semidefinite n m"
  shows "square n (foldl (ewma_update_real l) m rs)
         \<and> symmetric n (foldl (ewma_update_real l) m rs)
         \<and> positive_semidefinite n (foldl (ewma_update_real l) m rs)"
  using assms
proof (induction rs arbitrary: m)
  case Nil
  then show ?case by simp
next
  case (Cons r rs)
  then have r: "length r = n" and rs: "list_all (\<lambda>r. length r = n) rs" by simp_all
  show ?case
    using Cons.IH [OF rs Cons.prems(2,3) square_ewma_update_real [OF Cons.prems(4) r]
        symmetric_ewma_update_real [OF Cons.prems(4) r Cons.prems(5)]
        psd_ewma_update_real [OF Cons.prems(4) r Cons.prems(6) Cons.prems(2,3)]]
    by simp
qed

lemma foldl_index_tl:
  "foldl (\<lambda>m i. g m (xs ! i)) m0 [1..<length xs] = foldl g m0 (tl xs)"
proof -
  have "map (\<lambda>i. xs ! i) [1..<length xs] = tl xs"
    by (rule nth_equalityI) (simp_all add: nth_tl)
  then have "foldl g m0 (tl xs) = foldl g m0 (map (\<lambda>i. xs ! i) [1..<length xs])" by simp
  also have "\<dots> = foldl (\<lambda>m i. g m (xs ! i)) m0 [1..<length xs]"
    by (simp only: foldl_map)
  finally show ?thesis by simp
qed

lemma ewma_real_tl: "ewma_real df l = foldl (ewma_update_real l) (annual_cov_real df) (tl (rows df))"
  unfolding ewma_real_def by (rule foldl_index_tl)









section \<open>A hedged portfolio\<close>

lemma upt_2: "[0..<2] = [0, 1]"
  by (simp add: upt_rec)

lemma hedged_cov_real:
  "annual_cov_real hedged_returns
     = [[504 / 10000, - 1512 / 10000], [- 1512 / 10000, 4536 / 10000]]"
  by (simp add: annual_cov_real_def cov_real_def hedged_returns_def cov_entry_def column_def
      mean_def upt_2)

lemma hedged_weights:
  "get_weights hedged_portfolio = [1/2, 1/2]" "portfolio_value hedged_portfolio = 100000"
  by (simp_all add: hedged_portfolio_def get_weights_def)

lemma hedged_rows: "2 \<le> length (rows hedged_returns)"
  by (simp add: hedged_returns_def)

lemma hedged_vol:
  "component_portfolio_var hedged_portfolio hedged_returns = Fin (sqrt (504 / 10000))"
  unfolding component_portfolio_var_def annual_cov_Fin [OF hedged_rows] quadratic_form_Fin
    hedged_cov_real hedged_weights
  by (simp add: quad_def dot_def)

lemma hedged_component_A:
  "component_var hedged_portfolio hedged_returns 0 = Fin (- 2520 / sqrt (504 / 10000))"
  unfolding component_var_def Let_def hedged_vol annual_cov_Fin [OF hedged_rows] hedged_cov_real
    hedged_weights
  by (simp add: fin_matrix_def np_dot_def np_sum_def)

text \<open>
  Claim C10. There are a return table, positive weights and a positive portfolio value,
  with positive portfolio volatility, for which an entry of the mapping returned by
  \<^verbatim>\<open>_calculate_component_var\<close> is strictly negative: no absolute value is applied to a
  component VaR, which is the weight times the covariance-weighted exposure
  \<open>Cov_row_i . w\<close> over the volatility, times the value. With equal weights on two
  assets that move against each other, the asset whose exposure is negative gets a
  negative amount.
\<close>

theorem component_var_negative_entry:
  "\<exists>self returns i x v.
     returns = get_returns (portfolio self)
     \<and> well_shaped (portfolio self)
     \<and> list_all (\<lambda>w. 0 < w) (get_weights (portfolio self))
     \<and> 0 < portfolio_value (portfolio self)
     \<and> component_portfolio_var (portfolio self) returns = Fin v \<and> 0 < v
     \<and> i < length (columns returns)
     \<and> dot (annual_cov_real returns ! i) (get_weights (portfolio self)) < 0
     \<and> calculate_component_var self returns (columns returns ! i) = Some (Fin x)
     \<and> x = get_weights (portfolio self) ! i
             * (dot (annual_cov_real returns ! i) (get_weights (portfolio self)) / v)
             * portfolio_value (portfolio self)
     \<and> x < 0"
proof -
  have r: "hedged_returns = get_returns (portfolio hedged_calculator)"
    by (simp add: hedged_calculator_def hedged_portfolio_def get_returns_def)
  have p: "portfolio hedged_calculator = hedged_portfolio"
    by (simp add: hedged_calculator_def)
  have ws: "well_shaped hedged_portfolio"
    by (simp add: well_shaped_def hedged_portfolio_def hedged_returns_def)
  have d: "distinct (columns hedged_returns)" "0 < length (columns hedged_returns)"
    by (simp_all add: hedged_returns_def)
  have e: "dot (annual_cov_real hedged_returns ! 0) [1/2, 1/2] = - 504 / 10000"
    by (simp add: hedged_cov_real dot_def)
  have x: "calculate_component_var hedged_calculator hedged_returns (columns hedged_returns ! 0)
             = Some (Fin (- 2520 / sqrt (504 / 10000)))"
    using component_var_dict [OF d(1,2), of hedged_calculator] by (simp add: p hedged_component_A)
  have f: "- 2520 / sqrt (504 / 10000)
             = [1/2, 1/2] ! 0 * (- 504 / 10000 / sqrt (504 / 10000)) * (100000::real)"
    by simp
  have neg: "- 2520 / sqrt (504 / 10000) < (0::real)" "- 504 / 10000 < (0::real)" by simp_all
  have pos: "0 < sqrt (504 / 10000 :: real)" "(0::real) < 100000"
    "list_all (\<lambda>w. 0 < w) [1/2, 1/2 :: real]"
    by simp_all
  have "hedged_returns = get_returns (portfolio hedged_calculator)
     \<and> well_shaped (portfolio hedged_calculator)
     \<and> list_all (\<lambda>w. 0 < w) (get_weights (portfolio hedged_calculator))
     \<and> 0 < portfolio_value (portfolio hedged_calculator)
     \<and> component_portfolio_var (portfolio hedged_calculator) hedged_returns
         = Fin (sqrt (504 / 10000)) \<and> 0 < sqrt (504 / 10000 :: real)
     \<and> 0 < length (columns hedged_returns)
     \<and> dot (annual_cov_real hedged_returns ! 0) (get_weights (portfolio hedged_calculator)) < 0
     \<and> calculate_component_var hedged_calculator hedged_returns (columns hedged_returns ! 0)
         = Some (Fin (- 2520 / sqrt (504 / 10000)))
     \<and> - 2520 / sqrt (504 / 10000) = get_weights (portfolio hedged_calculator) ! 0
             * (dot (annual_cov_real hedged_returns ! 0) (get_weights (portfolio hedged_calculator))
                  / sqrt (504 / 10000))
             * portfolio_value (portfolio hedged_calculator)
     \<and> - 2520 / sqrt (504 / 10000) < (0::real)"
    unfolding p hedged_weights e using r ws d(2) x f neg pos hedged_vol
    by (simp only: p simp_thms)
  then show ?thesis by blast
qed

lemma hedged_ewma_variance:
  "quadratic_form (calculate_ewma_covariance hedged_returns lambda_default) [1/2, 1/2]
     = Fin (47382 / 1000000)"
proof -
  have rows: "rows hedged_returns = [[1/100, -3/100], [-1/100, 3/100]]"
    by (simp add: hedged_returns_def)
  have "ewma_real hedged_returns (94 / 100)
          = ewma_update_real (94 / 100) (annual_cov_real hedged_returns) [-1/100, 3/100]"
    by (simp add: ewma_real_def rows upt_rec)
  also have "\<dots> = [[47382 / 1000000, - 142146 / 1000000], [- 142146 / 1000000, 426438 / 1000000]]"
    by (simp add: ewma_update_real_def hedged_cov_real outer_def)
  finally show ?thesis
    by (simp add: ewma_covariance_Fin [OF hedged_rows] lambda_default_def quadratic_form_Fin
        quad_def dot_def)
qed

lemma hedged_parametric:
  "calculate_parametric_var tabulated_quantile hedged_calculator hedged_returns
     = Fin (164500 * sqrt (47382 / 1000000))"
proof -
  have c: "portfolio hedged_calculator = hedged_portfolio" "time_horizon hedged_calculator = 1"
    "alpha hedged_calculator = 1 / 20"
    by (simp_all add: hedged_calculator_def)
  show ?thesis
    unfolding calculate_parametric_var_def Let_def c hedged_weights hedged_ewma_variance
    by (simp add: norm_ppf_def tabulated_quantile_def abs_mult)
qed

lemma hedged_component_B:
  "component_var hedged_portfolio hedged_returns (Suc 0) = Fin (7560 / sqrt (504 / 10000))"
  unfolding component_var_def Let_def hedged_vol annual_cov_Fin [OF hedged_rows] hedged_cov_real
    hedged_weights
  by (simp add: fin_matrix_def np_dot_def np_sum_def)

lemma hedged_component_sum:
  "np_sum (map (\<lambda>asset. the (calculate_component_var hedged_calculator hedged_returns asset))
       (columns hedged_returns)) = Fin (sqrt (504 / 10000) * 100000)"
proof -
  have p: "portfolio hedged_calculator = hedged_portfolio" by (simp add: hedged_calculator_def)
  have d: "distinct (columns hedged_returns)" "length (columns hedged_returns) = 2"
    by (simp_all add: hedged_returns_def)
  have "5040 / sqrt (504 / 10000) = sqrt (504 / 10000) * (100000::real)"
  proof -
    have "sqrt (504 / 10000) * sqrt (504 / 10000) = (504 / 10000 :: real)" by simp
    then show ?thesis by (simp add: field_simps)
  qed
  then show ?thesis
    by (simp add: component_values [OF d(1)] d(2) upt_2 p hedged_component_A hedged_component_B
        np_sum_def)
qed

lemma hedged_gap: "sqrt (504 / 10000) * 100000 < 99 / 100 * (164500 * sqrt (47382 / 1000000 :: real))"
proof -
  have "sqrt (504 / 10000 :: real) < sqrt ((162855 / 100000)\<^sup>2 * (47382 / 1000000))"
    by (subst real_sqrt_less_iff) (simp add: power2_eq_square)
  also have "\<dots> = 162855 / 100000 * sqrt (47382 / 1000000)"
    by (simp only: real_sqrt_mult real_sqrt_abs)
  finally show ?thesis by simp
qed

text \<open>
  On the hedged portfolio, at confidence level 0.95 and horizon 1, the component VaR
  values sum to about 22,450 and the parametric VaR is about 35,807: the sum is below 99%
  of the parametric VaR.
\<close>

theorem component_sum_not_parametric_var:
  "np_sum (map (\<lambda>asset. the (calculate_component_var hedged_calculator hedged_returns asset))
       (columns hedged_returns)) = Fin (sqrt (504 / 10000) * 100000)
   \<and> calculate_parametric_var tabulated_quantile hedged_calculator hedged_returns
       = Fin (164500 * sqrt (47382 / 1000000))
   \<and> sqrt (504 / 10000) * 100000 < 99 / 100 * (164500 * sqrt (47382 / 1000000 :: real))"
  using hedged_component_sum hedged_parametric hedged_gap by blast

theorem component_var_euler_sum_witness:
  "length (get_weights (portfolio hedged_calculator)) = length (columns hedged_returns)
   \<and> distinct (columns hedged_returns)
   \<and> component_portfolio_var (portfolio hedged_calculator) hedged_returns = Fin (sqrt (504 / 10000))
   \<and> 0 < sqrt (504 / 10000 :: real)
   \<and> np_sum (map (\<lambda>asset. the (calculate_component_var hedged_calculator hedged_returns asset))
         (columns hedged_returns))
       = Fin (sqrt (504 / 10000) * portfolio_value (portfolio hedged_calculator))"
proof -
  have p: "portfolio hedged_calculator = hedged_portfolio" by (simp add: hedged_calculator_def)
  have a: "length (get_weights (portfolio hedged_calculator)) = length (columns hedged_returns)"
    by (simp add: p hedged_weights hedged_returns_def)
  have b: "distinct (columns hedged_returns)" by (simp add: hedged_returns_def)
  have c: "component_portfolio_var (portfolio hedged_calculator) hedged_returns
             = Fin (sqrt (504 / 10000))"
    by (simp add: p hedged_vol)
  have d: "0 < sqrt (504 / 10000 :: real)" by simp
  show ?thesis using a b c d component_var_euler_sum [OF a b c d] by simp
qed

section \<open>Percentiles and the bootstrap pool\<close>

lemma np_insort_Fin: "np_insort (Fin x) (map Fin ys) = map Fin (insort x ys)"
  by (induction ys) simp_all

lemma np_sort_Fin: "np_sort (map Fin xs) = map Fin (sort xs)"
  by (induction xs) (simp_all add: np_sort_def np_insort_Fin)

lemma np_lerp_Fin: "np_lerp (Fin a) (Fin b) t = Fin (a + (b - a) * t)"
  by (simp add: np_lerp_def np_sub_def algebra_simps)

lemma virtual_index_bounds:
  assumes "0 \<le> q" "q \<le> 100" "0 < n"
  shows "nat \<lfloor>q / 100 * real (n - 1)\<rfloor> \<le> n - 1"
proof -
  have "q / 100 * real (n - 1) \<le> 1 * real (n - 1)"
    using assms by (intro mult_right_mono) simp_all
  then have "\<lfloor>q / 100 * real (n - 1)\<rfloor> \<le> int (n - 1)"
    by (simp add: floor_le_iff)
  then show ?thesis by simp
qed

lemma np_percentile_Fin:
  assumes "xs \<noteq> []" "0 \<le> q" "q \<le> 100"
  shows "np_percentile (map Fin xs) q = Inr (Fin (percentile_real xs q))"
proof -
  let ?n = "length xs"
  let ?k = "nat \<lfloor>q / 100 * real (?n - 1)\<rfloor>"
  have n: "0 < ?n" using assms(1) by simp
  have k: "?k < ?n" using virtual_index_bounds [OF assms(2,3) n] n by linarith
  have k': "min (?k + 1) (?n - 1) < ?n" using n by linarith
  have nan: "NaN \<notin> set (map Fin xs)" by auto
  show ?thesis
    using assms k k' nan
    by (simp add: np_percentile_def percentile_real_def Let_def np_sort_Fin np_lerp_Fin)
qed

lemma percentile_real_replicate:
  assumes "0 < m" "0 \<le> q" "q \<le> 100"
  shows "percentile_real (replicate m c) q = c"
proof -
  have s: "sort (replicate m c) = replicate m c"
    by (simp add: sorted_sort_id sorted_replicate)
  have k: "nat \<lfloor>q / 100 * real (m - 1)\<rfloor> < m"
    using virtual_index_bounds [OF assms(2,3,1)] assms(1) by linarith
  have k': "min (nat \<lfloor>q / 100 * real (m - 1)\<rfloor> + 1) (m - 1) < m" using assms(1) by simp
  show ?thesis
    using k k' by (simp add: percentile_real_def Let_def s)
qed

lemma random_choice_map: "random_choice d (map f xs) = map f (random_choice d xs)"
  by (cases "xs = []") (simp_all add: random_choice_def)

lemma random_choice_replicate: "random_choice d (replicate n x) = replicate n x"
  by (rule nth_equalityI) (simp_all add: random_choice_def)

lemma length_random_choice [simp]: "length (random_choice d xs) = length xs"
  by (simp add: random_choice_def)

lemma scaled_returns_Fin:
  "0 \<le> th \<Longrightarrow> scaled_returns th returns = map Fin (map (\<lambda>r. r * sqrt (real_of_int th)) returns)"
  by (simp add: scaled_returns_def)

lemma bootstrap_samples_Fin:
  "0 \<le> th \<Longrightarrow> bootstrap_samples draw th returns = map Fin (bootstrap_real draw th returns)"
proof -
  have "concat (map (\<lambda>b. map Fin (g b)) bs) = map Fin (concat (map g bs))"
    for g :: "nat \<Rightarrow> real list" and bs
    by (induction bs) simp_all
  then show "0 \<le> th \<Longrightarrow> ?thesis"
    by (simp add: bootstrap_samples_def bootstrap_real_def scaled_returns_Fin random_choice_map
        del: map_map)
qed

lemma bootstrap_real_nonempty: "returns \<noteq> [] \<Longrightarrow> bootstrap_real draw th returns \<noteq> []"
proof -
  assume "returns \<noteq> []"
  then have "random_choice (draw 0) (map (\<lambda>r. r * sqrt (real_of_int th)) returns) \<noteq> []"
    by (simp add: random_choice_def)
  moreover have "(0::nat) \<in> set [0..<1000]" by simp
  ultimately show ?thesis
    unfolding bootstrap_real_def concat_eq_Nil_conv by (metis (no_types, lifting) image_eqI set_map)
qed

lemma historical_var_Fin:
  assumes "returns \<noteq> []" "0 \<le> time_horizon self" "0 \<le> alpha self" "alpha self \<le> 1"
  shows "calculate_historical_var draw self returns
           = Inr (Fin \<bar>percentile_real (bootstrap_real draw (time_horizon self) returns)
                        (alpha self * 100) * portfolio_value (portfolio self)\<bar>)"
  using assms
  by (simp add: calculate_historical_var_def bootstrap_samples_Fin
      np_percentile_Fin [OF bootstrap_real_nonempty])

section \<open>Exceptions and finite results\<close>

lemma concat_replicate_const:
  "concat (map (\<lambda>b. replicate n x) bs) = replicate (length bs * n) x"
  by (induction bs) (simp_all add: replicate_add)

lemma bootstrap_real_constant:
  "bootstrap_real draw th (replicate n c) = replicate (1000 * n) (c * sqrt (real_of_int th))"
  by (simp add: bootstrap_real_def random_choice_replicate concat_replicate_const)

lemma constant_series: "list_all (\<lambda>r. r = c) xs \<Longrightarrow> xs = replicate (length xs) c"
  by (induction xs) simp_all

lemma scenarios_Fin:
  "0 \<le> th \<Longrightarrow> scenarios draw th v trials = Inr (map Fin (scenarios_real draw th v trials))"
  by (induction trials) (simp_all add: scenarios_real_def t_rvs_def)

lemma scenarios_Inl:
  "scenarios draw th v trials = Inl e \<longleftrightarrow> trials \<noteq> [] \<and> th < 0 \<and> e = ValueError"
  by (induction trials) (auto simp: t_rvs_def split: sum.splits)

lemma np_percentile_range: "q < 0 \<or> 100 < q \<Longrightarrow> np_percentile a q = Inl ValueError"
  by (simp add: np_percentile_def)

lemma np_percentile_empty: "0 \<le> q \<Longrightarrow> q \<le> 100 \<Longrightarrow> np_percentile [] q = Inl IndexError"
  by (simp add: np_percentile_def)

lemma np_percentile_returns:
  "0 \<le> q \<Longrightarrow> q \<le> 100 \<Longrightarrow> a \<noteq> [] \<Longrightarrow> \<exists>x. np_percentile a q = Inr x"
  by (simp add: np_percentile_def Let_def)

lemma bootstrap_samples_empty: "bootstrap_samples draw th returns = [] \<longleftrightarrow> returns = []"
proof
  assume e: "bootstrap_samples draw th returns = []"
  show "returns = []"
  proof (rule ccontr)
    assume "returns \<noteq> []"
    then have "random_choice (draw 0) (scaled_returns th returns) \<noteq> []"
      by (simp add: random_choice_def scaled_returns_def)
    moreover have "(0::nat) \<in> set [0..<1000]" by simp
    ultimately show False
      using e unfolding bootstrap_samples_def concat_eq_Nil_conv
      by (metis (no_types, lifting) image_eqI set_map)
  qed
next
  assume "returns = []"
  then show "bootstrap_samples draw th returns = []"
    by (simp add: bootstrap_samples_def scaled_returns_def random_choice_def)
qed

lemma scenarios_Nil:
  "scenarios draw th v trials = Inr scs \<Longrightarrow> scs = [] \<longleftrightarrow> trials = []"
  by (cases trials) (auto split: sum.splits)

lemma historical_var_Inl:
  "calculate_historical_var draw self returns = Inl e
     \<longleftrightarrow> (alpha self * 100 < 0 \<or> 100 < alpha self * 100) \<and> e = ValueError
         \<or> 0 \<le> alpha self * 100 \<and> alpha self * 100 \<le> 100 \<and> returns = [] \<and> e = IndexError"
proof (cases "alpha self * 100 < 0 \<or> 100 < alpha self * 100")
  case True
  then have "calculate_historical_var draw self returns = Inl ValueError"
    unfolding calculate_historical_var_def by (simp only: np_percentile_range sum.case)
  with True show ?thesis by auto
next
  case False
  then have q: "0 \<le> alpha self * 100" "alpha self * 100 \<le> 100" by simp_all
  show ?thesis
  proof (cases "returns = []")
    case True
    then have "bootstrap_samples draw (time_horizon self) returns = []"
      by (simp add: bootstrap_samples_empty)
    then have "calculate_historical_var draw self returns = Inl IndexError"
      unfolding calculate_historical_var_def by (simp only: np_percentile_empty [OF q] sum.case)
    with True False show ?thesis by auto
  next
    case ne: False
    then have "bootstrap_samples draw (time_horizon self) returns \<noteq> []"
      by (simp add: bootstrap_samples_empty)
    from np_percentile_returns [OF q this]
    obtain x where "np_percentile (bootstrap_samples draw (time_horizon self) returns)
                      (alpha self * 100) = Inr x"
      by blast
    then have "\<exists>y. calculate_historical_var draw self returns = Inr y"
      unfolding calculate_historical_var_def by (simp only: sum.case) blast
    with False ne show ?thesis by auto
  qed
qed

lemma monte_carlo_var_Inl:
  "calculate_monte_carlo_var draw self returns = Inl e
     \<longleftrightarrow> 0 < simulations self \<and> time_horizon self < 0 \<and> e = ValueError
         \<or> \<not> (0 < simulations self \<and> time_horizon self < 0)
            \<and> (alpha self * 100 < 0 \<or> 100 < alpha self * 100) \<and> e = ValueError
         \<or> simulations self \<le> 0 \<and> 0 \<le> alpha self * 100 \<and> alpha self * 100 \<le> 100
            \<and> e = IndexError"
proof (cases "0 < simulations self \<and> time_horizon self < 0")
  case True
  then have "scenarios draw (time_horizon self) (portfolio_value (portfolio self))
               [0..<nat (simulations self)] = Inl ValueError"
    by (simp add: scenarios_Inl)
  then have "calculate_monte_carlo_var draw self returns = Inl ValueError"
    unfolding calculate_monte_carlo_var_def by (simp only: sum.case)
  with True show ?thesis by auto
next
  case False
  then have "\<forall>e'. scenarios draw (time_horizon self) (portfolio_value (portfolio self))
               [0..<nat (simulations self)] \<noteq> Inl e'"
    by (auto simp: scenarios_Inl)
  then obtain scs where scs: "scenarios draw (time_horizon self) (portfolio_value (portfolio self))
               [0..<nat (simulations self)] = Inr scs"
    by (meson sum.exhaust_sel sumE)
  show ?thesis
  proof (cases "alpha self * 100 < 0 \<or> 100 < alpha self * 100")
    case True
    then have "calculate_monte_carlo_var draw self returns = Inl ValueError"
      unfolding calculate_monte_carlo_var_def scs by (simp only: np_percentile_range sum.case)
    with True False show ?thesis by auto
  next
    case ok: False
    then have q: "0 \<le> alpha self * 100" "alpha self * 100 \<le> 100" by simp_all
    show ?thesis
    proof (cases "0 < simulations self")
      case True
      then have "scs \<noteq> []" using scenarios_Nil [OF scs] by simp
      from np_percentile_returns [OF q this]
      obtain x where "np_percentile scs (alpha self * 100) = Inr x" by blast
      then have "\<exists>y. calculate_monte_carlo_var draw self returns = Inr y"
        unfolding calculate_monte_carlo_var_def scs by (simp only: sum.case) blast
      with True False ok show ?thesis by auto
    next
      case none: False
      then have "scs = []" using scenarios_Nil [OF scs] by simp
      then have "calculate_monte_carlo_var draw self returns = Inl IndexError"
        unfolding calculate_monte_carlo_var_def scs
        by (simp only: np_percentile_empty [OF q] sum.case)
      with none ok show ?thesis by auto
    qed
  qed
qed

lemma all_var_methods_Inl:
  assumes "get_portfolio_returns (portfolio self) \<noteq> []"
  shows "calculate_all_var_methods env self = Inl e
     \<longleftrightarrow> (alpha self * 100 < 0 \<or> 100 < alpha self * 100) \<and> e = ValueError
         \<or> 0 \<le> alpha self * 100 \<and> alpha self * 100 \<le> 100
            \<and> (0 < simulations self \<and> time_horizon self < 0 \<and> e = ValueError
               \<or> simulations self \<le> 0 \<and> e = IndexError)"
proof (cases "calculate_historical_var (choice_draw env) self (get_portfolio_returns (portfolio self))")
  case (Inl e')
  then have "calculate_all_var_methods env self = Inl e'"
    unfolding calculate_all_var_methods_def Let_def by (simp only: sum.case)
  with Inl assms
    historical_var_Inl [of "choice_draw env" self "get_portfolio_returns (portfolio self)" e']
  show ?thesis by auto
next
  case h: (Inr h)
  then have range: "\<not> (alpha self * 100 < 0 \<or> 100 < alpha self * 100)"
    using historical_var_Inl [of "choice_draw env" self "get_portfolio_returns (portfolio self)" ValueError]
    by auto
  show ?thesis
  proof (cases "calculate_monte_carlo_var (t_draw env) self (get_returns (portfolio self))")
    case (Inl e')
    then have "calculate_all_var_methods env self = Inl e'"
      unfolding calculate_all_var_methods_def Let_def h by (simp only: sum.case)
    with Inl range monte_carlo_var_Inl [of "t_draw env" self "get_returns (portfolio self)" e']
    show ?thesis by auto
  next
    case (Inr m)
    then have "\<exists>res. calculate_all_var_methods env self = Inr res"
      unfolding calculate_all_var_methods_def Let_def h by (simp only: sum.case) blast
    moreover have "\<not> (0 < simulations self \<and> time_horizon self < 0)"
      using Inr monte_carlo_var_Inl [of "t_draw env" self "get_returns (portfolio self)" ValueError]
      by auto
    moreover have "\<not> simulations self \<le> 0"
      using Inr range
        monte_carlo_var_Inl [of "t_draw env" self "get_returns (portfolio self)" IndexError]
      by auto
    ultimately show ?thesis using range by auto
  qed
qed

lemma monte_carlo_var_Fin:
  assumes "0 \<le> time_horizon self" "0 < simulations self" "0 \<le> alpha self" "alpha self \<le> 1"
  shows "calculate_monte_carlo_var draw self returns
           = Inr (Fin \<bar>percentile_real
                         (scenarios_real draw (time_horizon self) (portfolio_value (portfolio self))
                            [0..<nat (simulations self)]) (alpha self * 100)\<bar>)"
proof -
  have "scenarios_real draw (time_horizon self) (portfolio_value (portfolio self))
          [0..<nat (simulations self)] \<noteq> []"
    using assms(2) by (simp add: scenarios_real_def)
  from np_percentile_Fin [OF this, of "alpha self * 100"] assms show ?thesis
    by (simp add: calculate_monte_carlo_var_def scenarios_Fin)
qed

lemma ewma_real_psd:
  assumes "list_all (\<lambda>r. length r = length (columns df)) (rows df)" "0 \<le> l" "l \<le> 1"
    and "length w = length (columns df)"
  shows "0 \<le> quad (ewma_real df l) w"
proof -
  have "list_all (\<lambda>r. length r = length (columns df)) (tl (rows df))"
    using assms(1) by (cases "rows df") simp_all
  from foldl_ewma_invariant [OF this assms(2,3) square_annual_cov_real
      symmetric_annual_cov_real psd_annual_cov_real]
  have "positive_semidefinite (length (columns df)) (ewma_real df l)"
    by (simp add: ewma_real_tl)
  then show ?thesis using assms(4) by (simp add: positive_semidefinite_def)
qed

lemma parametric_var_Fin:
  assumes "2 \<le> length (rows returns)"
    and "list_all (\<lambda>r. length r = length (columns returns)) (rows returns)"
    and "length (get_weights (portfolio self)) = length (columns returns)"
    and "0 < alpha self" "alpha self < 1" "0 \<le> time_horizon self"
  shows "calculate_parametric_var quantile self returns
           = Fin \<bar>quantile (alpha self)
                  * sqrt (quad (ewma_real returns lambda_default) (get_weights (portfolio self))
                           * real_of_int (time_horizon self))
                  * portfolio_value (portfolio self)\<bar>"
proof -
  have "0 \<le> quad (ewma_real returns lambda_default) (get_weights (portfolio self))"
    using ewma_real_psd [OF assms(2) _ _ assms(3), of lambda_default]
    by (simp add: lambda_default_def)
  then have "0 \<le> quad (ewma_real returns lambda_default) (get_weights (portfolio self))
                    * real_of_int (time_horizon self)"
    using assms(6) by simp
  then show ?thesis
    unfolding calculate_parametric_var_def Let_def ewma_covariance_Fin [OF assms(1)]
      quadratic_form_Fin
    using assms(4,5) by (simp add: norm_ppf_def)
qed

section \<open>Historical VaR of a constant series\<close>

lemma constant_pool_percentile:
  assumes "0 < n" "0 \<le> q" "q \<le> 100"
  shows "percentile_real (bootstrap_real draw th (replicate n c)) q = c * sqrt (real_of_int th)"
  using assms by (simp add: bootstrap_real_constant percentile_real_replicate)

text \<open>
  Claim C1, as amended. For every non-empty constant return series (every return equal to
  \<open>c\<close>), any bootstrap draws, a horizon \<open>h \<ge> 0\<close> and a tail probability in [0, 1],
  \<^verbatim>\<open>_calculate_historical_var\<close> raises no error and returns
  \<open>|c| * sqrt h * |portfolio value|\<close>: every resample of a constant series is that
  series, so the percentile is the scaled constant itself. The result is 0 when
  \<open>c = 0\<close>, and not otherwise close to 0.
\<close>

theorem historical_var_constant_series:
  assumes "returns \<noteq> []" "list_all (\<lambda>r. r = c) returns"
    and "0 \<le> time_horizon self" "0 \<le> alpha self" "alpha self \<le> 1"
  shows "calculate_historical_var draw self returns
           = Inr (Fin (\<bar>c\<bar> * sqrt (real_of_int (time_horizon self))
                        * \<bar>portfolio_value (portfolio self)\<bar>))"
proof -
  have r: "returns = replicate (length returns) c" using assms(2) by (rule constant_series)
  have n: "0 < length returns" using assms(1) by simp
  have q: "0 \<le> alpha self * 100" "alpha self * 100 \<le> 100" using assms(4,5) by simp_all
  have "percentile_real (bootstrap_real draw (time_horizon self) returns) (alpha self * 100)
          = c * sqrt (real_of_int (time_horizon self))"
    using constant_pool_percentile [OF n q, of draw "time_horizon self" c] r by simp
  then show ?thesis
    using assms(3) by (simp add: historical_var_Fin [OF assms(1,3,4,5)] abs_mult)
qed

theorem historical_var_constant_series_witness:
  "[1/100, 1/100] \<noteq> ([]::real list) \<and> list_all (\<lambda>r. r = 1/100) [1/100, 1/100 :: real]
   \<and> 0 \<le> time_horizon hedged_calculator \<and> 0 \<le> alpha hedged_calculator
   \<and> alpha hedged_calculator \<le> 1
   \<and> calculate_historical_var (choice_draw example_env) hedged_calculator [1/100, 1/100]
       = Inr (Fin (\<bar>1/100\<bar> * sqrt (real_of_int (time_horizon hedged_calculator))
                        * \<bar>portfolio_value (portfolio hedged_calculator)\<bar>))"
proof -
  have a: "[1/100, 1/100] \<noteq> ([]::real list)" by simp
  have b: "list_all (\<lambda>r. r = 1/100) [1/100, 1/100 :: real]" by simp
  have c: "0 \<le> time_horizon hedged_calculator" "0 \<le> alpha hedged_calculator"
    "alpha hedged_calculator \<le> 1"
    by (simp_all add: hedged_calculator_def)
  show ?thesis
    using a b c historical_var_constant_series [OF a b c, of "choice_draw example_env"] by blast
qed

text \<open>
  A constant series of 1% returns, portfolio value 100,000, confidence 0.95, horizon 1:
  the historical VaR is 1000, not approximately 0.
\<close>

theorem historical_var_constant_not_zero:
  "calculate_historical_var (choice_draw example_env) hedged_calculator [1/100, 1/100]
     = Inr (Fin 1000)"
proof -
  have c: "0 \<le> time_horizon hedged_calculator" "0 \<le> alpha hedged_calculator"
    "alpha hedged_calculator \<le> 1"
    by (simp_all add: hedged_calculator_def)
  have "percentile_real (bootstrap_real (choice_draw example_env) 1 (replicate 2 (1/100)))
          (alpha hedged_calculator * 100) = 1/100 * sqrt (real_of_int 1)"
    by (rule constant_pool_percentile) (simp_all add: hedged_calculator_def)
  moreover have "replicate 2 (1/100) = [1/100, 1/100::real]" by (simp add: numeral_2_eq_2)
  moreover have "time_horizon hedged_calculator = 1"
    "portfolio_value (portfolio hedged_calculator) = 100000"
    by (simp_all add: hedged_calculator_def hedged_portfolio_def)
  ultimately show ?thesis
    using historical_var_Fin [OF _ c, of "[1/100, 1/100]" "choice_draw example_env"] by simp
qed

lemma parametric_scaling:
  assumes "0 < h"
  shows "np_abs (np_mul (np_mul z (np_sqrt (np_mul v (Fin h)))) (Fin V))
           = np_mul (Fin (sqrt h)) (np_abs (np_mul (np_mul z (np_sqrt (np_mul v (Fin 1)))) (Fin V)))"
proof (cases v)
  case (Fin x)
  show ?thesis
  proof (cases "x < 0")
    case True
    then have "x * h < 0" using assms by (simp add: mult_neg_pos)
    with True Fin show ?thesis by (cases z) simp_all
  next
    case False
    then have x: "0 \<le> x" "0 \<le> x * h" using assms by simp_all
    have sh: "0 < sqrt h" using assms by simp
    have "\<not> x * h < 0" using x by (simp add: not_less)
    then have vh: "np_sqrt (np_mul v (Fin h)) = Fin (sqrt h * sqrt x)"
      unfolding Fin by (simp only: np_mul.simps np_sqrt.simps if_False real_sqrt_mult mult.commute)
    have v1: "np_sqrt (np_mul v (Fin 1)) = Fin (sqrt x)"
      unfolding Fin using False by simp
    show ?thesis
    proof (cases "x = 0")
      case True
      show ?thesis unfolding vh v1 True by (cases z) simp_all
    next
      case False
      with x have sx: "0 < sqrt x" by simp
      then have sxh: "0 < sqrt h * sqrt x" using sh by simp
      show ?thesis
      proof (cases z)
        case (Fin a)
        with sh show ?thesis by (simp add: vh v1 abs_mult)
      next
        case PInf
        with sh sx sxh show ?thesis
          by (cases "0 < V"; cases "V < 0") (simp_all add: vh v1 not_less)
      next
        case NInf
        with sh sx sxh show ?thesis
          by (cases "0 < V"; cases "V < 0") (simp_all add: vh v1 not_less)
      next
        case NaN
        then show ?thesis by (simp add: vh v1)
      qed
    qed
  qed
next
  case PInf
  with assms show ?thesis
    by (cases z; cases "0 < V"; cases "V < 0") (simp_all add: not_less)
next
  case NInf
  with assms show ?thesis by (cases z) simp_all
next
  case NaN
  then show ?thesis by (cases z) simp_all
qed

section \<open>Horizon and configuration\<close>

text \<open>
  Claim C5. For a fixed portfolio, return table and confidence level, the parametric VaR
  at a horizon \<open>h \<ge> 1\<close> is \<open>sqrt h\<close> times the parametric VaR at horizon 1. The equation
  is exact in the model, special values included (NaN below two observations, an
  infinite z-score at a tail probability of 0 or 1).
\<close>

theorem parametric_var_horizon_scaling:
  assumes "1 \<le> h"
  shows "calculate_parametric_var quantile (self\<lparr>time_horizon := h\<rparr>) returns
           = np_mul (Fin (sqrt (real_of_int h)))
               (calculate_parametric_var quantile (self\<lparr>time_horizon := 1\<rparr>) returns)"
proof -
  have "0 < real_of_int h" using assms by simp
  from parametric_scaling [OF this] show ?thesis
    by (simp add: calculate_parametric_var_def Let_def)
qed

theorem parametric_var_horizon_scaling_witness:
  "(1::int) \<le> 4
   \<and> calculate_parametric_var tabulated_quantile (hedged_calculator\<lparr>time_horizon := 4\<rparr>)
        hedged_returns
      = np_mul (Fin 2)
          (calculate_parametric_var tabulated_quantile (hedged_calculator\<lparr>time_horizon := 1\<rparr>)
             hedged_returns)"
proof -
  have h: "(1::int) \<le> 4" by simp
  have "sqrt (real_of_int 4) = 2" by simp
  then show ?thesis
    using h parametric_var_horizon_scaling [OF h, of tabulated_quantile hedged_calculator hedged_returns]
    by simp
qed

lemma all_var_methods_Inr:
  assumes "calculate_historical_var (choice_draw env) self (get_portfolio_returns (portfolio self)) = Inr h"
    and "calculate_monte_carlo_var (t_draw env) self (get_returns (portfolio self)) = Inr m"
  shows "calculate_all_var_methods env self
           = Inr \<lparr>historical = h,
                  parametric = calculate_parametric_var (norm_quantile env) self
                                 (get_returns (portfolio self)),
                  monte_carlo = m,
                  volatility = calculate_volatility (get_portfolio_returns (portfolio self)),
                  sharpe_ratio = calculate_sharpe_ratio (get_portfolio_returns (portfolio self))
                                   risk_free_rate_default,
                  max_drawdown = calculate_max_drawdown (get_portfolio_returns (portfolio self)),
                  var_breakdown = calculate_component_var self (get_returns (portfolio self))\<rparr>"
  unfolding calculate_all_var_methods_def Let_def assms by (simp only: sum.case)

text \<open>
  Claim C9, as amended. The risk calculator validates no configuration and never raises
  \<open>InvalidConfigurationError\<close>; what \<^verbatim>\<open>calculate_all_var_methods\<close> raises is numpy's or
  scipy's \<open>ValueError\<close> or \<open>IndexError\<close>. For a portfolio with a non-empty return table and
  one weight per column, constructing the calculator succeeds for every confidence
  level, horizon and simulation count, and stores them with
  \<open>alpha = 1 - confidence_level\<close>. With a confidence level in the closed interval
  [0, 1] the call raises exactly when the simulation count is 0 or less (\<open>IndexError\<close>,
  numpy's percentile of the empty scenario list) or the horizon is negative and the
  simulation count positive (\<open>ValueError\<close>, scipy refuses the sample size); so with a
  confidence level of 0 or 1, or a horizon of 0, and a positive simulation count it
  returns a result. With a confidence level above 1 it raises \<open>ValueError\<close> (numpy
  refuses the percentile).
\<close>

theorem configuration_not_validated:
  assumes "well_shaped p" and "rows (returns_data p) \<noteq> []"
  shows "\<exists>self. risk_calculator_init p cl th sims = Inr self
     \<and> (0 \<le> cl \<and> cl \<le> 1
          \<longrightarrow> (\<forall>e. (calculate_all_var_methods env self = Inl e)
                    = (0 < sims \<and> th < 0 \<and> e = ValueError \<or> sims \<le> 0 \<and> e = IndexError)))
     \<and> (1 < cl \<longrightarrow> calculate_all_var_methods env self = Inl ValueError)
     \<and> (\<forall>e. calculate_all_var_methods env self = Inl e \<longrightarrow> e = ValueError \<or> e = IndexError)"
proof -
  let ?self = "\<lparr>portfolio = p, confidence_level = cl, time_horizon = th, simulations = sims,
                 alpha = 1 - cl\<rparr>"
  have ne: "get_portfolio_returns (portfolio ?self) \<noteq> []"
    using assms(2) by (simp add: get_portfolio_returns_def)
  have all: "(calculate_all_var_methods env ?self = Inl e)
          = ((cl < 0 \<or> 1 < cl) \<and> e = ValueError
               \<or> 0 \<le> cl \<and> cl \<le> 1
                  \<and> (0 < sims \<and> th < 0 \<and> e = ValueError \<or> sims \<le> 0 \<and> e = IndexError))" for e
    unfolding all_var_methods_Inl [OF ne] by auto
  have "0 \<le> cl \<and> cl \<le> 1
          \<longrightarrow> (\<forall>e. (calculate_all_var_methods env ?self = Inl e)
                    = (0 < sims \<and> th < 0 \<and> e = ValueError \<or> sims \<le> 0 \<and> e = IndexError))"
    unfolding all by auto
  moreover have "1 < cl \<longrightarrow> calculate_all_var_methods env ?self = Inl ValueError"
    unfolding all by auto
  moreover have "\<forall>e. calculate_all_var_methods env ?self = Inl e
                   \<longrightarrow> e = ValueError \<or> e = IndexError"
    unfolding all by auto
  ultimately show ?thesis by (simp add: risk_calculator_init_def)
qed

theorem configuration_not_validated_witness:
  "well_shaped hedged_portfolio \<and> rows (returns_data hedged_portfolio) \<noteq> []
   \<and> (0::real) \<le> 1 \<and> (1::real) \<le> 1
   \<and> (\<exists>self. risk_calculator_init hedged_portfolio 1 0 10000 = Inr self
         \<and> (\<forall>e. (calculate_all_var_methods example_env self = Inl e)
                = ((0::int) < 10000 \<and> (0::int) < 0 \<and> e = ValueError
                   \<or> (10000::int) \<le> 0 \<and> e = IndexError)))"
proof -
  have a: "well_shaped hedged_portfolio"
    by (simp add: well_shaped_def hedged_portfolio_def hedged_returns_def)
  have b: "rows (returns_data hedged_portfolio) \<noteq> []"
    by (simp add: hedged_portfolio_def hedged_returns_def)
  have c: "(0::real) \<le> 1 \<and> (1::real) \<le> 1" by simp
  from configuration_not_validated [OF a b, of 1 0 10000 example_env]
  obtain self where "risk_calculator_init hedged_portfolio 1 0 10000 = Inr self"
    and "(0::real) \<le> 1 \<and> (1::real) \<le> 1
          \<longrightarrow> (\<forall>e. (calculate_all_var_methods example_env self = Inl e)
                = ((0::int) < 10000 \<and> (0::int) < 0 \<and> e = ValueError
                   \<or> (10000::int) \<le> 0 \<and> e = IndexError))"
    by blast
  with a b c show ?thesis by blast
qed

lemma concat_replicate_replicate:
  "concat (replicate k (replicate n x)) = replicate (k * n) x"
  by (induction k) (simp_all add: replicate_add)

lemma bootstrap_real_zero_horizon:
  "bootstrap_real draw 0 returns = replicate (1000 * length returns) 0"
  by (simp add: bootstrap_real_def map_replicate_const random_choice_replicate
      concat_replicate_replicate)

lemma scenarios_real_zero_horizon:
  "scenarios_real draw 0 v trials = replicate (length trials) 0"
  by (simp add: scenarios_real_def map_replicate_const)

lemma hedged_portfolio_returns: "get_portfolio_returns hedged_portfolio = [- 1/100, 1/100]"
  by (simp add: get_portfolio_returns_def hedged_portfolio_def hedged_returns_def)

lemma zero_horizon_fields:
  "portfolio zero_horizon_calculator = hedged_portfolio"
  "time_horizon zero_horizon_calculator = 0"
  "simulations zero_horizon_calculator = 10000"
  "alpha zero_horizon_calculator = 1 / 20"
  by (simp_all add: zero_horizon_calculator_def)

lemma zero_horizon_historical:
  "calculate_historical_var draw zero_horizon_calculator [- 1/100, 1/100] = Inr (Fin 0)"
proof -
  have "percentile_real (replicate (1000 * length [- 1/100, 1/100 :: real]) 0) (1 / 20 * 100) = 0"
    by (rule percentile_real_replicate) simp_all
  then show ?thesis
    using historical_var_Fin [of "[- 1/100, 1/100]" zero_horizon_calculator draw]
    by (simp add: zero_horizon_fields bootstrap_real_zero_horizon)
qed

lemma zero_horizon_monte_carlo:
  "calculate_monte_carlo_var draw zero_horizon_calculator returns = Inr (Fin 0)"
proof -
  have "percentile_real (replicate (length [0..<nat 10000]) 0) (1 / 20 * 100) = 0"
    by (rule percentile_real_replicate) simp_all
  then show ?thesis
    using monte_carlo_var_Fin [of zero_horizon_calculator draw returns]
    by (simp add: zero_horizon_fields scenarios_real_zero_horizon)
qed

lemma zero_horizon_parametric:
  "calculate_parametric_var quantile zero_horizon_calculator hedged_returns = Fin 0"
proof -
  have a: "list_all (\<lambda>r. length r = length (columns hedged_returns)) (rows hedged_returns)"
    by (simp add: hedged_returns_def)
  have b: "length (get_weights (portfolio zero_horizon_calculator)) = length (columns hedged_returns)"
    by (simp add: zero_horizon_fields hedged_weights hedged_returns_def)
  show ?thesis
    using parametric_var_Fin [OF hedged_rows a b, of quantile]
    by (simp add: zero_horizon_fields)
qed

text \<open>
  With a horizon of 0 (confidence 0.95, 10,000 simulations) construction succeeds and
  \<^verbatim>\<open>calculate_all_var_methods\<close> returns a result whose three VaR values are the number 0.
\<close>

theorem zero_horizon_returns_numbers:
  "risk_calculator_init hedged_portfolio (95 / 100) 0 10000 = Inr zero_horizon_calculator
   \<and> map_sum id historical (calculate_all_var_methods example_env zero_horizon_calculator)
       = Inr (Fin 0)
   \<and> map_sum id parametric (calculate_all_var_methods example_env zero_horizon_calculator)
       = Inr (Fin 0)
   \<and> map_sum id monte_carlo (calculate_all_var_methods example_env zero_horizon_calculator)
       = Inr (Fin 0)"
proof -
  have r: "get_returns hedged_portfolio = hedged_returns"
    by (simp add: get_returns_def hedged_portfolio_def)
  have i: "risk_calculator_init hedged_portfolio (95 / 100) 0 10000 = Inr zero_horizon_calculator"
    by (simp add: risk_calculator_init_def zero_horizon_calculator_def)
  have h: "calculate_historical_var (choice_draw example_env) zero_horizon_calculator
             (get_portfolio_returns (portfolio zero_horizon_calculator)) = Inr (Fin 0)"
    by (simp only: zero_horizon_fields hedged_portfolio_returns zero_horizon_historical)
  have m: "calculate_monte_carlo_var (t_draw example_env) zero_horizon_calculator
             (get_returns (portfolio zero_horizon_calculator)) = Inr (Fin 0)"
    by (rule zero_horizon_monte_carlo)
  have p: "calculate_parametric_var (norm_quantile example_env) zero_horizon_calculator
             (get_returns (portfolio zero_horizon_calculator)) = Fin 0"
    by (simp only: zero_horizon_fields r zero_horizon_parametric)
  show ?thesis
    unfolding all_var_methods_Inr [OF h m] p using i by simp
qed

section \<open>Zero-variance returns\<close>

lemma mean_replicate: "0 < n \<Longrightarrow> mean (replicate n c) = c"
  by (simp add: mean_def sum_list_replicate)

lemma series_std_constant: "2 \<le> n \<Longrightarrow> series_std (replicate n c) = Fin 0"
proof -
  assume n: "2 \<le> n"
  then have "mean (replicate n c) = c" by (simp add: mean_replicate)
  then have "(\<Sum>x\<leftarrow>replicate n c. (x - mean (replicate n c))\<^sup>2) = 0"
    by (simp add: sum_list_replicate)
  then show ?thesis using n by (simp add: series_std_def)
qed

lemma volatility_constant: "2 \<le> n \<Longrightarrow> calculate_volatility (replicate n c) = Fin 0"
  by (simp add: calculate_volatility_def series_std_constant)

lemma constant_table_portfolio_returns:
  assumes "list_all (\<lambda>r. r = r0) (rows (returns_data p))"
  shows "get_portfolio_returns p
           = replicate (length (rows (returns_data p))) (sum_list (map2 (*) r0 (weights p)))"
proof -
  have "rows (returns_data p) = replicate (length (rows (returns_data p))) r0"
    using assms by (rule constant_series)
  then have "map (\<lambda>r. sum_list (map2 (*) r (weights p))) (rows (returns_data p))
               = map (\<lambda>r. sum_list (map2 (*) r (weights p)))
                   (replicate (length (rows (returns_data p))) r0)"
    by simp
  then show ?thesis by (simp add: get_portfolio_returns_def del: replicate_eq_replicate)
qed

lemma constant_table_cov_entry:
  assumes "list_all (\<lambda>r. r = r0) (rows df)" "rows df \<noteq> []"
  shows "cov_entry df i j = 0"
proof -
  have r: "rows df = replicate (length (rows df)) r0" using assms(1) by (rule constant_series)
  have n: "0 < length (rows df)" using assms(2) by simp
  have "column df i = replicate (length (rows df)) (r0 ! i)"
    unfolding column_def by (subst r) simp
  then have "mean (column df i) = r0 ! i" using n by (simp add: mean_replicate)
  moreover have "\<forall>r\<in>set (rows df). r = r0" using assms(1) by (simp add: list_all_iff)
  ultimately have "(\<Sum>r\<leftarrow>rows df. (r ! i - mean (column df i)) * (r ! j - mean (column df j))) = 0"
    by (simp add: sum_list_0 cong: map_cong)
  then show ?thesis by (simp add: cov_entry_def)
qed

lemma dot_zero_left: "dot (replicate n 0) w = 0"
proof -
  have "map2 (*) (replicate n 0) w = replicate (min n (length w)) (0::real)"
    by (rule nth_equalityI) simp_all
  then show ?thesis by (simp add: dot_def sum_list_replicate)
qed

lemma dot_zero_right: "dot w (replicate n 0) = 0"
proof -
  have "map2 (*) w (replicate n 0) = replicate (min (length w) n) (0::real)"
    by (rule nth_equalityI) simp_all
  then show ?thesis by (simp add: dot_def sum_list_replicate)
qed

lemma constant_table_annual_cov:
  assumes "list_all (\<lambda>r. r = r0) (rows df)" "rows df \<noteq> []"
  shows "annual_cov_real df = replicate (length (columns df)) (replicate (length (columns df)) 0)"
  by (simp add: annual_cov_real_def cov_real_def Let_def constant_table_cov_entry [OF assms]
      map_replicate_const)

lemma constant_table_component_var:
  assumes "list_all (\<lambda>r. r = r0) (rows returns)" "2 \<le> length (rows returns)"
    and "i < length (columns returns)"
  shows "component_portfolio_var p returns = Fin 0" and "component_var p returns i = NaN"
proof -
  have ne: "rows returns \<noteq> []" using assms(2) by auto
  note c = constant_table_annual_cov [OF assms(1) ne]
  have q: "quad (annual_cov_real returns) (get_weights p) = 0"
    by (simp add: quad_def c dot_zero_left map_replicate_const dot_zero_right)
  show v: "component_portfolio_var p returns = Fin 0"
    by (simp add: component_portfolio_var_def annual_cov_Fin [OF assms(2)] quadratic_form_Fin q)
  have "annual_cov returns ! i = map Fin (replicate (length (columns returns)) 0)"
    using assms(3) by (simp add: annual_cov_Fin [OF assms(2)] fin_matrix_def c)
  then show "component_var p returns i = NaN"
    unfolding component_var_def Let_def v by (simp only: np_dot_Fin dot_zero_left) simp
qed

lemma all_var_methods_returns:
  assumes "get_portfolio_returns (portfolio self) \<noteq> []"
    and "0 \<le> alpha self" "alpha self \<le> 1" "0 \<le> time_horizon self" "0 < simulations self"
  shows "\<exists>h m. calculate_all_var_methods env self
           = Inr \<lparr>historical = h,
                  parametric = calculate_parametric_var (norm_quantile env) self
                                 (get_returns (portfolio self)),
                  monte_carlo = m,
                  volatility = calculate_volatility (get_portfolio_returns (portfolio self)),
                  sharpe_ratio = calculate_sharpe_ratio (get_portfolio_returns (portfolio self))
                                   risk_free_rate_default,
                  max_drawdown = calculate_max_drawdown (get_portfolio_returns (portfolio self)),
                  var_breakdown = calculate_component_var self (get_returns (portfolio self))\<rparr>"
proof -
  have q: "0 \<le> alpha self * 100" "alpha self * 100 \<le> 100" using assms(2,3) by simp_all
  have "\<forall>e. calculate_historical_var (choice_draw env) self
              (get_portfolio_returns (portfolio self)) \<noteq> Inl e"
    using q assms(1) unfolding historical_var_Inl by auto
  then obtain h where h: "calculate_historical_var (choice_draw env) self
              (get_portfolio_returns (portfolio self)) = Inr h"
    by (meson sumE)
  have "\<forall>e. calculate_monte_carlo_var (t_draw env) self (get_returns (portfolio self)) \<noteq> Inl e"
    using q assms(4,5) unfolding monte_carlo_var_Inl by auto
  then obtain m where m: "calculate_monte_carlo_var (t_draw env) self
              (get_returns (portfolio self)) = Inr m"
    by (meson sumE)
  from all_var_methods_Inr [OF h m] show ?thesis by blast
qed

lemma zero_table_constant:
  assumes "list_all (\<lambda>r. length r = n) rs" "list_all (list_all (\<lambda>x. x = 0)) rs"
  shows "list_all (\<lambda>r. r = replicate n (0::real)) rs"
proof -
  have "r = replicate n 0" if "r \<in> set rs" for r
  proof -
    have "length r = n" "\<forall>x\<in>set r. x = 0"
      using that assms by (auto simp: list_all_iff)
    then show ?thesis by (intro replicate_eqI) auto
  qed
  then show ?thesis by (simp add: list_all_iff)
qed

lemma zero_series_sharpe:
  assumes "2 \<le> n"
  shows "calculate_sharpe_ratio (replicate n 0) risk_free_rate_default = NInf"
proof -
  have "series_mean (replicate n 0) = Fin 0"
    using assms by (auto simp: series_mean_def sum_list_replicate)
  then show ?thesis
    using volatility_constant [OF assms, of 0]
    by (simp add: calculate_sharpe_ratio_def risk_free_rate_default_def np_sub_def)
qed

lemma zero_table_ewma_quad:
  assumes "list_all (\<lambda>r. r = replicate n 0) rs" "square n m" "length w = n" "quad m w = 0"
  shows "quad (foldl (ewma_update_real l) m rs) w = 0"
  using assms
proof (induction rs arbitrary: m)
  case Nil
  then show ?case by simp
next
  case (Cons r rs)
  then have r: "r = replicate n 0" "length r = n" and rs: "list_all (\<lambda>r. r = replicate n 0) rs"
    by simp_all
  have "quad (ewma_update_real l m r) w = 0"
    using quad_ewma_update_real [OF Cons.prems(2) r(2) Cons.prems(3), of l] Cons.prems(4)
    by (simp add: r(1) dot_zero_left)
  from Cons.IH [OF rs square_ewma_update_real [OF Cons.prems(2) r(2)] Cons.prems(3) this]
  show ?case by simp
qed

text \<open>
  Claim C2, as amended. No division-by-zero guard exists and no \<open>DegenerateInputError\<close> is
  raised: for every non-empty return table, zero-variance ones included (one weight per
  column, tail probability in (0, 1), horizon at least 0, positive simulation count),
  \<^verbatim>\<open>calculate_all_var_methods\<close> returns a result. The Sharpe ratio and the component VaR
  divide floats, which yields an infinity or NaN at a zero divisor, and the parametric
  VaR divides by nothing. On a table of all-zero returns with at least two observations
  and distinct column names, where float arithmetic is exact, the Sharpe ratio is minus
  infinity, the parametric VaR is the number 0 and every component VaR is NaN.
\<close>

theorem zero_variance_raises_nothing:
  assumes "well_shaped (portfolio self)"
    and "rows (get_returns (portfolio self)) \<noteq> []"
    and "0 < alpha self" "alpha self < 1" "0 \<le> time_horizon self" "0 < simulations self"
  shows "\<exists>res. calculate_all_var_methods env self = Inr res
           \<and> (2 \<le> length (rows (get_returns (portfolio self)))
              \<and> list_all (list_all (\<lambda>x. x = 0)) (rows (get_returns (portfolio self)))
              \<and> distinct (columns (get_returns (portfolio self)))
              \<longrightarrow> sharpe_ratio res = NInf \<and> parametric res = Fin 0
                  \<and> (\<forall>asset\<in>set (columns (get_returns (portfolio self))).
                        var_breakdown res asset = Some NaN))"
proof -
  let ?p = "portfolio self"
  let ?returns = "get_returns ?p"
  let ?N = "length (columns ?returns)"
  have shape: "list_all (\<lambda>r. length r = ?N) (rows ?returns)" "length (get_weights ?p) = ?N"
    using assms(1) by (simp_all add: well_shaped_def get_returns_def get_weights_def)
  have ne: "get_portfolio_returns ?p \<noteq> []"
    using assms(2) by (simp add: get_portfolio_returns_def get_returns_def)
  obtain h m where res: "calculate_all_var_methods env self
           = Inr \<lparr>historical = h,
                  parametric = calculate_parametric_var (norm_quantile env) self ?returns,
                  monte_carlo = m,
                  volatility = calculate_volatility (get_portfolio_returns ?p),
                  sharpe_ratio = calculate_sharpe_ratio (get_portfolio_returns ?p)
                                   risk_free_rate_default,
                  max_drawdown = calculate_max_drawdown (get_portfolio_returns ?p),
                  var_breakdown = calculate_component_var self ?returns\<rparr>"
    using all_var_methods_returns [OF ne, of env] assms(3-6) by auto
  have zero: "calculate_sharpe_ratio (get_portfolio_returns ?p) risk_free_rate_default = NInf
              \<and> calculate_parametric_var (norm_quantile env) self ?returns = Fin 0
              \<and> (\<forall>asset\<in>set (columns ?returns).
                    calculate_component_var self ?returns asset = Some NaN)"
    if n: "2 \<le> length (rows ?returns)"
      and z: "list_all (list_all (\<lambda>x. x = 0)) (rows ?returns)"
      and d: "distinct (columns ?returns)"
  proof -
    have const: "list_all (\<lambda>r. r = replicate ?N 0) (rows ?returns)"
      using shape(1) z by (rule zero_table_constant)
    have const': "list_all (\<lambda>r. r = replicate ?N 0) (rows (returns_data ?p))"
      using const by (simp add: get_returns_def)
    have n': "2 \<le> length (rows (returns_data ?p))" using n by (simp add: get_returns_def)
    have "sum_list (map2 (*) (replicate ?N 0) (weights ?p)) = 0"
      using dot_zero_left [of ?N "weights ?p"] by (simp add: dot_def)
    then have "get_portfolio_returns ?p = replicate (length (rows (returns_data ?p))) 0"
      using constant_table_portfolio_returns [OF const'] by simp
    then have sharpe: "calculate_sharpe_ratio (get_portfolio_returns ?p) risk_free_rate_default
                         = NInf"
      using zero_series_sharpe [OF n'] by simp
    have rows_ne: "rows ?returns \<noteq> []" using n by auto
    have "quad (annual_cov_real ?returns) (get_weights ?p) = 0"
      by (simp add: quad_def constant_table_annual_cov [OF const rows_ne] dot_zero_left
          map_replicate_const dot_zero_right)
    moreover have "list_all (\<lambda>r. r = replicate ?N 0) (tl (rows ?returns))"
      using const by (cases "rows ?returns") simp_all
    ultimately have "quad (ewma_real ?returns lambda_default) (get_weights ?p) = 0"
      unfolding ewma_real_tl
      using zero_table_ewma_quad [OF _ square_annual_cov_real shape(2)] by blast
    then have par: "calculate_parametric_var (norm_quantile env) self ?returns = Fin 0"
      using parametric_var_Fin [OF n shape assms(3,4,5), of "norm_quantile env"] by simp
    have "calculate_component_var self ?returns asset = Some NaN"
      if "asset \<in> set (columns ?returns)" for asset
    proof -
      from that obtain i where i: "i < ?N" "columns ?returns ! i = asset"
        by (auto simp: in_set_conv_nth)
      show ?thesis
        using component_var_dict [OF d i(1), of self]
          constant_table_component_var(2) [OF const n i(1), of ?p]
        by (simp add: i(2))
    qed
    with sharpe par show ?thesis by blast
  qed
  show ?thesis unfolding res using zero by simp
qed

lemma flat_facts:
  "portfolio flat_calculator = flat_portfolio" "get_returns flat_portfolio = flat_returns"
  "alpha flat_calculator = 1 / 20" "time_horizon flat_calculator = 1"
  "simulations flat_calculator = 10000"
  "get_weights flat_portfolio = [1/2, 1/2]" "portfolio_value flat_portfolio = 100000"
  "get_portfolio_returns flat_portfolio = [0, 0]"
  "rows flat_returns = [[0, 0], [0, 0]]" "columns flat_returns = [''A'', ''B'']"
  by (simp_all add: flat_calculator_def flat_portfolio_def flat_returns_def get_returns_def
      get_weights_def get_portfolio_returns_def)

theorem zero_variance_raises_nothing_witness:
  "well_shaped (portfolio flat_calculator)
   \<and> rows (get_returns (portfolio flat_calculator)) \<noteq> []
   \<and> 0 < alpha flat_calculator \<and> alpha flat_calculator < 1
   \<and> 0 \<le> time_horizon flat_calculator \<and> 0 < simulations flat_calculator
   \<and> 2 \<le> length (rows (get_returns (portfolio flat_calculator)))
   \<and> list_all (list_all (\<lambda>x. x = 0)) (rows (get_returns (portfolio flat_calculator)))
   \<and> distinct (columns (get_returns (portfolio flat_calculator)))
   \<and> (\<exists>res. calculate_all_var_methods example_env flat_calculator = Inr res
           \<and> sharpe_ratio res = NInf \<and> parametric res = Fin 0
           \<and> (\<forall>asset\<in>set (columns (get_returns (portfolio flat_calculator))).
                 var_breakdown res asset = Some NaN))"
proof -
  have a: "well_shaped (portfolio flat_calculator)"
    by (simp add: well_shaped_def flat_calculator_def flat_portfolio_def flat_returns_def)
  have b: "rows (get_returns (portfolio flat_calculator)) \<noteq> []"
    by (simp add: flat_facts)
  have c: "0 < alpha flat_calculator" "alpha flat_calculator < 1"
    "0 \<le> time_horizon flat_calculator" "0 < simulations flat_calculator"
    by (simp_all add: flat_facts)
  have d: "2 \<le> length (rows (get_returns (portfolio flat_calculator)))"
    "list_all (list_all (\<lambda>x. x = 0)) (rows (get_returns (portfolio flat_calculator)))"
    "distinct (columns (get_returns (portfolio flat_calculator)))"
    by (simp_all add: flat_facts)
  show ?thesis
    using a b c d zero_variance_raises_nothing [OF a b c, of example_env] by blast
qed

lemma flat_sharpe: "calculate_sharpe_ratio [0, 0] risk_free_rate_default = NInf"
proof -
  have "calculate_volatility (replicate 2 0) = Fin 0" by (rule volatility_constant) simp
  then have "calculate_volatility [0, 0] = Fin 0" by (simp add: numeral_2_eq_2)
  then show ?thesis
    by (simp add: calculate_sharpe_ratio_def series_mean_def risk_free_rate_default_def np_sub_def)
qed

lemma flat_constant: "list_all (\<lambda>r. r = [0, 0]) (rows flat_returns)" "2 \<le> length (rows flat_returns)"
  by (simp_all add: flat_facts)

lemma flat_parametric:
  "calculate_parametric_var quantile flat_calculator flat_returns = Fin 0"
proof -
  have c: "annual_cov_real flat_returns = [[0, 0], [0, 0]]"
    using constant_table_annual_cov [OF flat_constant(1)]
    by (simp add: flat_facts numeral_2_eq_2)
  have "ewma_real flat_returns lambda_default = [[0, 0], [0, 0]]"
    by (simp add: ewma_real_def c flat_facts upt_rec ewma_update_real_def outer_def)
  then have "quad (ewma_real flat_returns lambda_default) [1/2, 1/2] = 0"
    by (simp add: quad_def dot_def)
  moreover have "list_all (\<lambda>r. length r = length (columns flat_returns)) (rows flat_returns)"
    "length (get_weights (portfolio flat_calculator)) = length (columns flat_returns)"
    by (simp_all add: flat_facts)
  ultimately show ?thesis
    using parametric_var_Fin [OF flat_constant(2), of flat_calculator quantile]
    by (simp add: flat_facts)
qed

lemma flat_component:
  "calculate_component_var flat_calculator flat_returns ''A'' = Some NaN"
proof -
  have "distinct (columns flat_returns)" "0 < length (columns flat_returns)"
    by (simp_all add: flat_facts)
  from component_var_dict [OF this, of flat_calculator]
    constant_table_component_var(2) [OF flat_constant this(2), of "portfolio flat_calculator"]
  show ?thesis by (simp add: flat_facts)
qed

text \<open>
  Two assets whose returns are all zero, equal weights, value 100,000, confidence
  0.95, horizon 1: the Sharpe ratio is minus infinity, the parametric VaR is the number
  0 and the component VaR of asset A is NaN. None of the three raises.
\<close>

theorem zero_variance_no_error:
  "calculate_sharpe_ratio (get_portfolio_returns flat_portfolio) risk_free_rate_default = NInf
   \<and> calculate_parametric_var tabulated_quantile flat_calculator flat_returns = Fin 0
   \<and> calculate_component_var flat_calculator flat_returns ''A'' = Some NaN"
  using flat_sharpe flat_parametric flat_component by (simp add: flat_facts)

section \<open>Sign of the VaR values\<close>

lemma np_abs_sign: "np_abs y = NaN \<or> np_le (Fin 0) (np_abs y)"
  by (cases y) simp_all

text \<open>
  Claim C3, as amended. For every valid configuration (confidence level in (0, 1),
  horizon and simulation count at least 1) and every non-empty return table with one
  weight per column, \<^verbatim>\<open>calculate_all_var_methods\<close> returns a result in which no VaR value
  is negative: the historical VaR is a finite number that is at least 0, and the
  parametric and Monte Carlo VaR are each at least 0 or NaN. The parametric VaR is NaN
  when the portfolio variance is NaN (a single observation) or negative.
\<close>

theorem var_values_never_negative:
  assumes "risk_calculator_init p cl th sims = Inr self"
    and "0 < cl" "cl < 1" "1 \<le> th" "1 \<le> sims"
    and "well_shaped p" "rows (returns_data p) \<noteq> []"
  shows "\<exists>res a. calculate_all_var_methods env self = Inr res
           \<and> historical res = Fin a \<and> 0 \<le> a
           \<and> (parametric res = NaN \<or> np_le (Fin 0) (parametric res))
           \<and> (monte_carlo res = NaN \<or> np_le (Fin 0) (monte_carlo res))"
proof -
  have self: "portfolio self = p" "alpha self = 1 - cl" "time_horizon self = th"
    "simulations self = sims"
    using assms(1) by (auto simp: risk_calculator_init_def)
  have cfg: "0 \<le> alpha self" "alpha self \<le> 1" "0 \<le> time_horizon self" "0 < simulations self"
    using assms(2-5) by (simp_all add: self)
  have ne: "get_portfolio_returns (portfolio self) \<noteq> []"
    using assms(7) by (simp add: get_portfolio_returns_def self)
  note h = historical_var_Fin [OF ne cfg(3,1,2), of "choice_draw env"]
  note m = monte_carlo_var_Fin [OF cfg(3,4,1,2), of "t_draw env" "get_returns (portfolio self)"]
  have par: "calculate_parametric_var (norm_quantile env) self (get_returns (portfolio self)) = NaN
             \<or> np_le (Fin 0)
                  (calculate_parametric_var (norm_quantile env) self (get_returns (portfolio self)))"
    unfolding calculate_parametric_var_def Let_def by (rule np_abs_sign)
  show ?thesis
    unfolding all_var_methods_Inr [OF h m] using par by simp
qed

theorem var_values_never_negative_witness:
  "risk_calculator_init hedged_portfolio (95 / 100) 1 10000 = Inr hedged_calculator
   \<and> (0::real) < 95 / 100 \<and> (95 / 100 :: real) < 1 \<and> (1::int) \<le> 1 \<and> (1::int) \<le> 10000
   \<and> well_shaped hedged_portfolio \<and> rows (returns_data hedged_portfolio) \<noteq> []
   \<and> (\<exists>res a. calculate_all_var_methods example_env hedged_calculator = Inr res
           \<and> historical res = Fin a \<and> 0 \<le> a
           \<and> (parametric res = NaN \<or> np_le (Fin 0) (parametric res))
           \<and> (monte_carlo res = NaN \<or> np_le (Fin 0) (monte_carlo res)))"
proof -
  have i: "risk_calculator_init hedged_portfolio (95 / 100) 1 10000 = Inr hedged_calculator"
    by (simp add: risk_calculator_init_def hedged_calculator_def)
  have c: "(0::real) < 95 / 100" "(95 / 100 :: real) < 1" "(1::int) \<le> 1" "(1::int) \<le> 10000"
    by simp_all
  have w: "well_shaped hedged_portfolio" "rows (returns_data hedged_portfolio) \<noteq> []"
    by (simp_all add: well_shaped_def hedged_portfolio_def hedged_returns_def)
  show ?thesis
    using i c w var_values_never_negative [OF i c w, of example_env] by blast
qed

lemma np_mul_NaN_right [simp]: "np_mul z NaN = NaN"
  by (cases z) simp_all

lemma ewma_covariance_few_rows:
  "length (rows df) < 2 \<Longrightarrow> calculate_ewma_covariance df l = annual_cov df"
  by (simp add: calculate_ewma_covariance_def Let_def dropna_def annual_cov_def)

lemma parametric_var_few_rows:
  assumes "length (rows returns) < 2" "0 < length (columns returns)"
    and "length (get_weights (portfolio self)) = length (columns returns)"
  shows "calculate_parametric_var quantile self returns = NaN"
  unfolding calculate_parametric_var_def Let_def ewma_covariance_few_rows [OF assms(1)]
    quadratic_form_few_rows [OF assms]
  by simp

lemma single_row_facts:
  "portfolio single_row_calculator = single_row_portfolio"
  "get_returns single_row_portfolio = single_row_returns"
  "alpha single_row_calculator = 1 / 20" "time_horizon single_row_calculator = 1"
  "get_weights single_row_portfolio = [1/2, 1/2]"
  "rows single_row_returns = [[1/100, 2/100]]" "columns single_row_returns = [''A'', ''B'']"
  by (simp_all add: single_row_calculator_def single_row_portfolio_def single_row_returns_def
      get_returns_def get_weights_def)

text \<open>
  A return table with a single observation is non-empty and has no missing value, but
  its sample covariance is NaN: with a valid configuration the call returns, and the
  parametric VaR of the result is NaN, which is not a non-negative number.
\<close>

theorem single_observation_parametric_nan:
  "risk_calculator_init single_row_portfolio (95 / 100) 1 10000 = Inr single_row_calculator
   \<and> calculate_parametric_var tabulated_quantile single_row_calculator single_row_returns = NaN
   \<and> map_sum id parametric (calculate_all_var_methods example_env single_row_calculator)
       = Inr NaN"
proof -
  have i: "risk_calculator_init single_row_portfolio (95 / 100) 1 10000 = Inr single_row_calculator"
    by (simp add: risk_calculator_init_def single_row_calculator_def)
  have d: "calculate_parametric_var tabulated_quantile single_row_calculator single_row_returns
             = NaN"
    by (rule parametric_var_few_rows) (simp_all add: single_row_facts)
  have "calculate_parametric_var (norm_quantile example_env) single_row_calculator
          (get_returns (portfolio single_row_calculator)) = NaN"
    by (rule parametric_var_few_rows) (simp_all add: single_row_facts)
  moreover obtain h m where "calculate_all_var_methods example_env single_row_calculator
           = Inr \<lparr>historical = h,
                  parametric = calculate_parametric_var (norm_quantile example_env)
                                 single_row_calculator (get_returns (portfolio single_row_calculator)),
                  monte_carlo = m,
                  volatility = calculate_volatility
                                 (get_portfolio_returns (portfolio single_row_calculator)),
                  sharpe_ratio = calculate_sharpe_ratio
                                   (get_portfolio_returns (portfolio single_row_calculator))
                                   risk_free_rate_default,
                  max_drawdown = calculate_max_drawdown
                                   (get_portfolio_returns (portfolio single_row_calculator)),
                  var_breakdown = calculate_component_var single_row_calculator
                                    (get_returns (portfolio single_row_calculator))\<rparr>"
    using all_var_methods_returns [of single_row_calculator example_env]
    by (auto simp: single_row_facts single_row_calculator_def single_row_portfolio_def
        single_row_returns_def get_portfolio_returns_def)
  ultimately show ?thesis using i d by simp
qed

section \<open>Monotonicity in the confidence level\<close>


















end
